theory Spec2Isabelle
  imports Complex_Main "HOL-Library.AList"
begin

text \<open>
  A model of \<open>portfolio_tracker.py\<close>: the functions \<open>load_portfolio\<close>,
  \<open>get_live_prices\<close>, \<open>calculate_performance\<close>, \<open>generate_summary_and_report\<close>,
  \<open>generate_visualization\<close> and \<open>main\<close>, with the file system, the DataFrame
  objects and the console as explicit state, exceptions as values, and the market-data
  provider as a parameter. Of pandas, numpy and matplotlib the model has what the source
  uses: columns by label, elementwise float arithmetic, \<open>map\<close>, \<open>fillna\<close>,
  \<open>sum\<close>, \<open>groupby\<close>, \<open>sort_values\<close> and \<open>max\<close>.
\<close>

section \<open>Values\<close>

text \<open>
  A float64 value of a pandas column. The three special values of IEEE 754 are kept
  apart, because the program's division guard depends on them. A finite value is an
  exact rational: rounding, overflow to infinity and the sign of zero are not modelled.
  (The wrap-around of int64 arithmetic is modelled, with the cells below.)
\<close>

datatype fval = Fin rat | PInf | NInf | NaN

fun fneg :: "fval \<Rightarrow> fval" where
  "fneg (Fin x) = Fin (- x)"
| "fneg PInf = NInf"
| "fneg NInf = PInf"
| "fneg NaN = NaN"

fun fadd :: "fval \<Rightarrow> fval \<Rightarrow> fval" where
  "fadd (Fin x) (Fin y) = Fin (x + y)"
| "fadd (Fin x) PInf = PInf"
| "fadd (Fin x) NInf = NInf"
| "fadd PInf (Fin y) = PInf"
| "fadd PInf PInf = PInf"
| "fadd PInf NInf = NaN"
| "fadd NInf (Fin y) = NInf"
| "fadd NInf NInf = NInf"
| "fadd NInf PInf = NaN"
| "fadd NaN b = NaN"
| "fadd a NaN = NaN"

definition fsub :: "fval \<Rightarrow> fval \<Rightarrow> fval" where
  "fsub a b = fadd a (fneg b)"

text \<open>The infinity with the sign of a non-zero rational.\<close>

definition inf_of_sign :: "rat \<Rightarrow> fval" where
  "inf_of_sign x = (if 0 < x then PInf else NInf)"

fun fmul :: "fval \<Rightarrow> fval \<Rightarrow> fval" where
  "fmul (Fin x) (Fin y) = Fin (x * y)"
| "fmul (Fin x) PInf = (if x = 0 then NaN else inf_of_sign x)"
| "fmul (Fin x) NInf = (if x = 0 then NaN else inf_of_sign (- x))"
| "fmul PInf (Fin y) = (if y = 0 then NaN else inf_of_sign y)"
| "fmul NInf (Fin y) = (if y = 0 then NaN else inf_of_sign (- y))"
| "fmul PInf PInf = PInf"
| "fmul PInf NInf = NInf"
| "fmul NInf PInf = NInf"
| "fmul NInf NInf = PInf"
| "fmul NaN b = NaN"
| "fmul a NaN = NaN"

text \<open>
  Division as numpy does it on float64 arrays: no exception, a non-zero value over zero
  is an infinity and zero over zero is NaN.
\<close>

fun fdiv :: "fval \<Rightarrow> fval \<Rightarrow> fval" where
  "fdiv (Fin x) (Fin y) =
     (if y = 0 then (if x = 0 then NaN else inf_of_sign x) else Fin (x / y))"
| "fdiv (Fin x) PInf = Fin 0"
| "fdiv (Fin x) NInf = Fin 0"
| "fdiv PInf (Fin y) = (if y < 0 then NInf else PInf)"
| "fdiv NInf (Fin y) = (if y < 0 then PInf else NInf)"
| "fdiv PInf PInf = NaN"
| "fdiv PInf NInf = NaN"
| "fdiv NInf PInf = NaN"
| "fdiv NInf NInf = NaN"
| "fdiv NaN b = NaN"
| "fdiv a NaN = NaN"

text \<open>The comparison \<open>x > 0\<close>; it is false on NaN.\<close>

fun fgt0 :: "fval \<Rightarrow> bool" where
  "fgt0 (Fin x) = (0 < x)"
| "fgt0 PInf = True"
| "fgt0 NInf = False"
| "fgt0 NaN = False"


text \<open>
  A cell of a table read by \<open>pd.read_csv\<close>: text, an int64 value (a column of
  integer literals only) or a float64 value (any other numeric column, and every column
  that has a missing cell).
\<close>

datatype cell = Str string | I64 int | Num fval

text \<open>An int64 result: the integer modulo \<open>2^64\<close>, read as a signed value.\<close>

definition wrap64 :: "int \<Rightarrow> int" where
  "wrap64 n = (n + 2 ^ 63) mod 2 ^ 64 - 2 ^ 63"

text \<open>The float64 value of a numeric cell.\<close>

fun float_of :: "cell \<Rightarrow> fval" where
  "float_of (I64 n) = Fin (of_int n)"
| "float_of (Num v) = v"
| "float_of (Str s) = NaN"

fun is_numeric :: "cell \<Rightarrow> bool" where
  "is_numeric (I64 n) = True"
| "is_numeric (Num v) = True"
| "is_numeric (Str s) = False"

fun is_int :: "cell \<Rightarrow> bool" where
  "is_int (I64 n) = True"
| "is_int (Num v) = False"
| "is_int (Str s) = False"

fun int_of :: "cell \<Rightarrow> int" where
  "int_of (I64 n) = n"
| "int_of (Num v) = 0"
| "int_of (Str s) = 0"

datatype error =
    KeyError string
  | TypeError
  | ValueError
  | ParserError

type_synonym series = "cell list"

text \<open>
  A console line. The three summary lines carry the number that the f-string formats;
  the two lines of the resolver carry the ticker, and the message of the exception.
\<close>

datatype line =
    Text string
  | TotalValueLine fval
  | TotalProfitLossLine fval
  | TotalReturnLine fval
  | FetchWarning cell
  | FetchError cell string

section \<open>Quote resolution\<close>

text \<open>
  What the body of the \<open>try\<close> block meets for one ticker: an exception with a
  message, raised by \<open>yf.Ticker(t).history(period="1d")\<close> or by reading the close,
  or a frame whose \<open>Close\<close> column is the given list (the empty list is the empty
  frame). The provider is a parameter of the model; it answers a ticker the same way
  each time it is asked.
\<close>

datatype fetch = Raises string | History "fval list"

type_synonym provider = "cell \<Rightarrow> fetch"
type_synonym prices = "cell \<rightharpoonup> fval"

text \<open>
  One pass of the loop body of \<open>get_live_prices\<close>: the dictionary and the lines
  printed so far, updated for one ticker.
\<close>

definition fetch_one :: "provider \<Rightarrow> prices \<times> line list \<Rightarrow> cell \<Rightarrow> prices \<times> line list" where
  "fetch_one prov st ticker_symbol =
     (case st of (prices, out) \<Rightarrow>
       (case prov ticker_symbol of
          Raises e \<Rightarrow> (prices(ticker_symbol \<mapsto> Fin 0), out @ [FetchError ticker_symbol e])
        | History [] \<Rightarrow> (prices(ticker_symbol \<mapsto> Fin 0), out @ [FetchWarning ticker_symbol])
        | History (c # cs) \<Rightarrow> (prices(ticker_symbol \<mapsto> c), out)))"

definition get_live_prices :: "provider \<Rightarrow> cell list \<Rightarrow> prices \<times> line list" where
  "get_live_prices prov tickers =
     foldl (fetch_one prov) (Map.empty, [Text ''Fetching live market data...'']) tickers"

text \<open>The price that the loop records for a ticker.\<close>

definition recorded_price :: "provider \<Rightarrow> cell \<Rightarrow> fval" where
  "recorded_price prov t =
     (case prov t of Raises e \<Rightarrow> Fin 0 | History [] \<Rightarrow> Fin 0 | History (c # cs) \<Rightarrow> c)"

definition failed :: "provider \<Rightarrow> cell \<Rightarrow> bool" where
  "failed prov t = (case prov t of Raises e \<Rightarrow> True | History cs \<Rightarrow> cs = [])"

definition warning_for :: "provider \<Rightarrow> cell \<Rightarrow> line" where
  "warning_for prov t = (case prov t of Raises e \<Rightarrow> FetchError t e | History cs \<Rightarrow> FetchWarning t)"

section \<open>Tables\<close>

text \<open>
  A DataFrame: its columns in order, each a label and the cells of its rows in row
  order. \<open>pd.read_csv\<close> never gives two columns the same label.
\<close>

type_synonym dataframe = "(string \<times> series) list"

definition columns :: "dataframe \<Rightarrow> string list" where
  "columns df = map fst df"

text \<open>\<open>df[name]\<close>: the column, or KeyError.\<close>

definition getitem :: "dataframe \<Rightarrow> string \<Rightarrow> error + series" where
  "getitem df name = (case map_of df name of None \<Rightarrow> Inl (KeyError name) | Some s \<Rightarrow> Inr s)"

text \<open>
  \<open>df[name] = s\<close>: an existing column keeps its place and gets the new cells, a new
  column is appended on the right.
\<close>

definition setitem :: "dataframe \<Rightarrow> string \<Rightarrow> series \<Rightarrow> dataframe" where
  "setitem df name s = AList.update name s df"

text \<open>The three operators that the source applies to columns.\<close>

datatype arith = Mul | Sub | Div

fun fop :: "arith \<Rightarrow> fval \<Rightarrow> fval \<Rightarrow> fval" where
  "fop Mul = fmul"
| "fop Sub = fsub"
| "fop Div = fdiv"

text \<open>
  Two int64 values: product and difference wrap around, the quotient is the float64
  quotient (true division).
\<close>

fun iop :: "arith \<Rightarrow> int \<Rightarrow> int \<Rightarrow> cell" where
  "iop Mul a b = I64 (wrap64 (a * b))"
| "iop Sub a b = I64 (wrap64 (a - b))"
| "iop Div a b = Num (fdiv (Fin (of_int a)) (Fin (of_int b)))"

text \<open>
  Arithmetic of two cells. An int64 value that meets a float64 value is converted to
  float64. Text times an int64 value is the text repeated; every other meeting of text
  with \<open>*\<close>, \<open>-\<close> or \<open>/\<close> raises TypeError.
\<close>

fun cell_op :: "arith \<Rightarrow> cell \<Rightarrow> cell \<Rightarrow> error + cell" where
  "cell_op op (Num a) (Num b) = Inr (Num (fop op a b))"
| "cell_op op (I64 a) (I64 b) = Inr (iop op a b)"
| "cell_op op (I64 a) (Num b) = Inr (Num (fop op (Fin (of_int a)) b))"
| "cell_op op (Num a) (I64 b) = Inr (Num (fop op a (Fin (of_int b))))"
| "cell_op Mul (Str s) (I64 n) = Inr (Str (concat (replicate (nat n) s)))"
| "cell_op Mul (I64 n) (Str s) = Inr (Str (concat (replicate (nat n) s)))"
| "cell_op op (Str s) b = Inl TypeError"
| "cell_op op a (Str s) = Inl TypeError"

text \<open>
  Elementwise arithmetic of two columns of one frame (they share the row index, so
  row \<open>i\<close> meets row \<open>i\<close>); the first failing row raises.
\<close>

fun series_op :: "arith \<Rightarrow> series \<Rightarrow> series \<Rightarrow> error + series" where
  "series_op op (a # as) (b # bs) =
     (case cell_op op a b of
        Inl e \<Rightarrow> Inl e
      | Inr c \<Rightarrow> (case series_op op as bs of Inl e \<Rightarrow> Inl e | Inr cs \<Rightarrow> Inr (c # cs)))"
| "series_op op [] bs = Inr []"
| "series_op op as [] = Inr []"

text \<open>\<open>s * 100\<close>: a column and an integer scalar.\<close>

definition series_scale :: "series \<Rightarrow> int \<Rightarrow> error + series" where
  "series_scale s k = series_op Mul s (map (\<lambda>c. I64 k) s)"

text \<open>\<open>s.fillna(0)\<close> replaces NaN, and only NaN, by 0.\<close>

definition fillna0 :: "series \<Rightarrow> series" where
  "fillna0 s = map (\<lambda>c. if c = Num NaN then Num (Fin 0) else c) s"

text \<open>\<open>s.map(d)\<close> with a dictionary: a value that is not a key of \<open>d\<close> becomes NaN.\<close>

definition series_map :: "prices \<Rightarrow> series \<Rightarrow> series" where
  "series_map d s = map (\<lambda>c. case d c of None \<Rightarrow> Num NaN | Some v \<Rightarrow> Num v) s"

text \<open>\<open>s.unique().tolist()\<close>: the distinct values in order of first appearance.\<close>

definition unique :: "'a list \<Rightarrow> 'a list" where
  "unique xs = foldl (\<lambda>acc x. if x \<in> set acc then acc else acc @ [x]) [] xs"

text \<open>The sum of float64 values that skips NaN; the sum of no values is 0.\<close>

fun nansum :: "fval list \<Rightarrow> fval" where
  "nansum [] = Fin 0"
| "nansum (a # vs) = (if a = NaN then nansum vs else fadd a (nansum vs))"

text \<open>
  \<open>s.sum()\<close>, as the number that the callers compare, divide and print: the sum of
  an int64 column wraps around, the sum of a float64 column skips NaN.
\<close>

definition series_sum :: "series \<Rightarrow> error + fval" where
  "series_sum cs =
     (if list_ex (\<lambda>c. \<not> is_numeric c) cs then Inl TypeError
      else if list_all is_int cs then Inr (Fin (of_int (wrap64 (sum_list (map int_of cs)))))
      else Inr (nansum (map float_of cs)))"

section \<open>The performance calculation\<close>

text \<open>
  One assignment \<open>df[name] = rhs\<close> of the calculation, on the frame as the previous
  assignments left it. Once a right-hand side has raised, nothing more is executed and
  the frame stays as it was at that moment.
\<close>

definition assign ::
  "string \<Rightarrow> (dataframe \<Rightarrow> error + series) \<Rightarrow> error option \<times> dataframe \<Rightarrow> error option \<times> dataframe" where
  "assign name rhs st =
     (case st of
        (Some e, df) \<Rightarrow> (Some e, df)
      | (None, df) \<Rightarrow>
          (case rhs df of Inl e \<Rightarrow> (Some e, df) | Inr s \<Rightarrow> (None, setitem df name s)))"

definition col_op ::
  "arith \<Rightarrow> string \<Rightarrow> string \<Rightarrow> dataframe \<Rightarrow> error + series" where
  "col_op f a b df =
     (case getitem df a of
        Inl e \<Rightarrow> Inl e
      | Inr x \<Rightarrow> (case getitem df b of Inl e \<Rightarrow> Inl e | Inr y \<Rightarrow> series_op f x y))"

text \<open>
  Lines 78 to 87 of \<open>calculate_performance\<close>: the five derived columns, assigned in
  the order of the source, from the price dictionary \<open>live_prices\<close>.
\<close>

definition derive_metrics :: "prices \<Rightarrow> dataframe \<Rightarrow> error option \<times> dataframe" where
  "derive_metrics live_prices portfolio_df =
     assign ''PercentageReturn''
       (\<lambda>df. case getitem df ''PercentageReturn'' of Inl e \<Rightarrow> Inl e | Inr s \<Rightarrow> Inr (fillna0 s))
    (assign ''PercentageReturn''
       (\<lambda>df. case col_op Div ''ProfitLoss'' ''PurchaseValue'' df of
                Inl e \<Rightarrow> Inl e | Inr s \<Rightarrow> series_scale s 100)
    (assign ''ProfitLoss'' (col_op Sub ''CurrentValue'' ''PurchaseValue'')
    (assign ''CurrentValue'' (col_op Mul ''Quantity'' ''CurrentPrice'')
    (assign ''PurchaseValue'' (col_op Mul ''Quantity'' ''PurchasePrice'')
    (assign ''CurrentPrice''
       (\<lambda>df. case getitem df ''Ticker'' of Inl e \<Rightarrow> Inl e | Inr s \<Rightarrow> Inr (series_map live_prices s))
       (None, portfolio_df))))))"

section \<open>The run: files, objects and the console\<close>

text \<open>
  A bar of the chart: its label, its height and the argument given to the colour map.
\<close>

type_synonym chart = "(cell \<times> fval \<times> fval) list"

text \<open>
  What a path holds: a table (a CSV file that parses), a chart image, or anything else.
\<close>

datatype contents = Csv dataframe | Png chart | Other

text \<open>
  The state of a run: the files by path, the DataFrame objects (a reference is an
  index into \<open>heap\<close>), and the lines printed.
\<close>

record world =
  files :: "string \<rightharpoonup> contents"
  heap :: "dataframe list"
  console :: "line list"

definition say :: "line \<Rightarrow> world \<Rightarrow> world" where
  "say l w = w\<lparr>console := console w @ [l]\<rparr>"

definition quoted :: "string \<Rightarrow> string" where
  "quoted s = CHR 0x27 # s @ [CHR 0x27]"

definition PORTFOLIO_CSV_PATH :: string where
  "PORTFOLIO_CSV_PATH = ''portfolio.csv''"

definition REPORT_CSV_PATH :: string where
  "REPORT_CSV_PATH = ''portfolio_performance_report.csv''"

definition CHART_PNG_PATH :: string where
  "CHART_PNG_PATH = ''portfolio_distribution.png''"

definition required_columns :: "string list" where
  "required_columns = [''Ticker'', ''Quantity'', ''PurchasePrice'']"

text \<open>\<open>pd.read_csv\<close> on what the path holds; it raises on what is not a table.\<close>

fun read_csv :: "contents \<Rightarrow> error + dataframe" where
  "read_csv (Csv df) = Inr df"
| "read_csv (Png c) = Inl ParserError"
| "read_csv Other = Inl ParserError"

text \<open>
  \<open>load_portfolio\<close> returns a reference to a new DataFrame object, or None after a
  diagnostic.
\<close>

definition load_portfolio :: "string \<Rightarrow> world \<Rightarrow> (error + nat option) \<times> world" where
  "load_portfolio file_path w =
     (case files w file_path of
        None \<Rightarrow>
          (Inr None,
           say (Text ''Please create it with columns: Ticker, Quantity, PurchasePrice'')
             (say (Text (''Error: Portfolio file not found at '' @ quoted file_path)) w))
      | Some f \<Rightarrow>
          (let w1 = say (Text (''Loading portfolio from '' @ quoted file_path @ ''...'')) w in
           case read_csv f of
             Inl e \<Rightarrow> (Inl e, w1)
           | Inr portfolio_df \<Rightarrow>
               (let w2 = w1\<lparr>heap := heap w1 @ [portfolio_df]\<rparr> in
                if \<not> list_all (\<lambda>col. col \<in> set (columns portfolio_df)) required_columns
                then (Inr None,
                      say (Text ''Error: The CSV file must contain the columns: Ticker, Quantity, PurchasePrice'') w2)
                else (Inr (Some (length (heap w1))), w2))))"

text \<open>
  \<open>calculate_performance\<close> works on the object behind the reference: it fetches the
  prices of the distinct tickers, assigns the derived columns in place and returns the
  reference it was given.
\<close>

definition calculate_performance :: "provider \<Rightarrow> nat \<Rightarrow> world \<Rightarrow> (error + nat) \<times> world" where
  "calculate_performance prov portfolio_df w =
     (let w1 = say (Text ''Calculating portfolio performance...'') w in
      case getitem (heap w1 ! portfolio_df) ''Ticker'' of
        Inl e \<Rightarrow> (Inl e, w1)
      | Inr s \<Rightarrow>
          (let tickers = unique s;
               (live_prices, out) = get_live_prices prov tickers;
               w2 = w1\<lparr>console := console w1 @ out\<rparr>;
               (err, df) = derive_metrics live_prices (heap w2 ! portfolio_df);
               w3 = w2\<lparr>heap := (heap w2)[portfolio_df := df]\<rparr>
           in case err of Some e \<Rightarrow> (Inl e, w3) | None \<Rightarrow> (Inr portfolio_df, w3)))"

text \<open>Lines 100 to 108 of \<open>generate_summary_and_report\<close>: the three sums and the return.\<close>

definition portfolio_totals :: "dataframe \<Rightarrow> error + (fval \<times> fval \<times> fval \<times> fval)" where
  "portfolio_totals performance_df =
     (case getitem performance_df ''PurchaseValue'' of Inl e \<Rightarrow> Inl e | Inr pv \<Rightarrow>
     (case series_sum pv of Inl e \<Rightarrow> Inl e | Inr total_purchase_value \<Rightarrow>
     (case getitem performance_df ''CurrentValue'' of Inl e \<Rightarrow> Inl e | Inr cv \<Rightarrow>
     (case series_sum cv of Inl e \<Rightarrow> Inl e | Inr total_current_value \<Rightarrow>
     (case getitem performance_df ''ProfitLoss'' of Inl e \<Rightarrow> Inl e | Inr pl \<Rightarrow>
     (case series_sum pl of Inl e \<Rightarrow> Inl e | Inr total_profit_loss \<Rightarrow>
        Inr (total_purchase_value, total_current_value, total_profit_loss,
             if fgt0 total_purchase_value
             then fmul (fdiv total_profit_loss total_purchase_value) (Fin 100)
             else Fin 0)))))))"

definition generate_summary_and_report :: "nat \<Rightarrow> string \<Rightarrow> world \<Rightarrow> (error + unit) \<times> world" where
  "generate_summary_and_report performance_df file_path w =
     (case portfolio_totals (heap w ! performance_df) of
        Inl e \<Rightarrow> (Inl e, w)
      | Inr (total_purchase_value, total_current_value, total_profit_loss, total_percentage_return) \<Rightarrow>
          (let w1 = w\<lparr>console := console w @
                 [Text (CHR 0x0A # replicate 40 CHR ''=''),
                  Text ''           PORTFOLIO SUMMARY'',
                  Text (replicate 40 CHR ''=''),
                  TotalValueLine total_current_value,
                  TotalProfitLossLine total_profit_loss,
                  TotalReturnLine total_percentage_return,
                  Text (replicate 40 CHR ''='' @ [CHR 0x0A]),
                  Text (''Saving detailed performance report to '' @ quoted file_path @ ''...'')]\<rparr>
           in (Inr (), w1\<lparr>files := (files w1)(file_path \<mapsto> Csv (heap w1 ! performance_df))\<rparr>)))"

section \<open>The chart\<close>

text \<open>Comparison of float64 values; every comparison with NaN is false.\<close>

fun fle :: "fval \<Rightarrow> fval \<Rightarrow> bool" where
  "fle NaN b = False"
| "fle a NaN = False"
| "fle NInf b = True"
| "fle a PInf = True"
| "fle (Fin x) (Fin y) = (x \<le> y)"
| "fle PInf b = False"
| "fle a NInf = False"

text \<open>Python's order of strings, by code point.\<close>

fun str_le :: "string \<Rightarrow> string \<Rightarrow> bool" where
  "str_le [] t = True"
| "str_le (x # xs) [] = False"
| "str_le (x # xs) (y # ys) =
     ((of_char x :: nat) < of_char y \<or> (x = y \<and> str_le xs ys))"

text \<open>
  The order in which \<open>groupby\<close> lists its keys: numbers before text.
\<close>

fun cell_le :: "cell \<Rightarrow> cell \<Rightarrow> bool" where
  "cell_le (Str s) (Str t) = str_le s t"
| "cell_le (Str s) b = False"
| "cell_le a (Str t) = True"
| "cell_le a b = fle (float_of a) (float_of b)"

fun insort_by :: "('a \<Rightarrow> 'a \<Rightarrow> bool) \<Rightarrow> 'a \<Rightarrow> 'a list \<Rightarrow> 'a list" where
  "insort_by le x [] = [x]"
| "insort_by le x (y # ys) = (if le x y then x # y # ys else y # insort_by le x ys)"

definition sort_by :: "('a \<Rightarrow> 'a \<Rightarrow> bool) \<Rightarrow> 'a list \<Rightarrow> 'a list" where
  "sort_by le xs = foldr (insort_by le) xs []"

fun collect :: "(error + 'a) list \<Rightarrow> error + 'a list" where
  "collect [] = Inr []"
| "collect (Inl e # rs) = Inl e"
| "collect (Inr x # rs) = (case collect rs of Inl e \<Rightarrow> Inl e | Inr xs \<Rightarrow> Inr (x # xs))"

text \<open>
  \<open>df.groupby('Ticker')['CurrentValue'].sum()\<close>: one entry per distinct ticker, in key
  order, with the sum of the current values of its rows; rows whose key is NaN are left
  out.
\<close>

definition group_total :: "series \<Rightarrow> series \<Rightarrow> cell \<Rightarrow> error + (cell \<times> fval)" where
  "group_total ks vs k =
     (case series_sum (map snd (filter (\<lambda>kv. fst kv = k) (zip ks vs))) of
        Inl e \<Rightarrow> Inl e
      | Inr t \<Rightarrow> Inr (k, t))"

definition groupby_sum :: "dataframe \<Rightarrow> string \<Rightarrow> string \<Rightarrow> error + (cell \<times> fval) list" where
  "groupby_sum df key col =
     (case getitem df key of Inl e \<Rightarrow> Inl e | Inr ks \<Rightarrow>
     (case getitem df col of Inl e \<Rightarrow> Inl e | Inr vs \<Rightarrow>
        collect (map (group_total ks vs)
                     (sort_by cell_le (unique (filter (\<lambda>k. k \<noteq> Num NaN) ks))))))"

text \<open>
  \<open>sort_values(ascending=False)\<close>: by value, largest first, NaN last. Entries of equal
  value are kept in their order, which pandas does not promise for long inputs.
\<close>

definition sort_values_desc :: "(cell \<times> fval) list \<Rightarrow> (cell \<times> fval) list" where
  "sort_values_desc kvs =
     sort_by (\<lambda>a b. fle (snd b) (snd a)) (filter (\<lambda>kv. snd kv \<noteq> NaN) kvs)
       @ filter (\<lambda>kv. snd kv = NaN) kvs"

text \<open>
  \<open>a.max()\<close> of a numpy array: ValueError on the empty array, NaN if a NaN is present.
\<close>

definition array_max :: "fval list \<Rightarrow> error + fval" where
  "array_max vs =
     (case vs of
        [] \<Rightarrow> Inl ValueError
      | v # rest \<Rightarrow>
          Inr (if NaN \<in> set vs then NaN else foldl (\<lambda>a b. if fle a b then b else a) v rest))"

text \<open>Lines 134 and 139: the bars, with the argument of the colour map for each.\<close>

definition chart_bars :: "dataframe \<Rightarrow> error + chart" where
  "chart_bars performance_df =
     (case groupby_sum performance_df ''Ticker'' ''CurrentValue'' of
        Inl e \<Rightarrow> Inl e
      | Inr grouped \<Rightarrow>
          (let chart_data = sort_values_desc grouped in
           case array_max (map snd chart_data) of
             Inl e \<Rightarrow> Inl e
           | Inr m \<Rightarrow> Inr (map (\<lambda>kv. (fst kv, snd kv, fdiv (snd kv) m)) chart_data)))"

definition generate_visualization :: "nat \<Rightarrow> string \<Rightarrow> world \<Rightarrow> (error + unit) \<times> world" where
  "generate_visualization performance_df file_path w =
     (let w1 = say (Text (''Generating portfolio distribution chart to '' @ quoted file_path @ ''...'')) w in
      case chart_bars (heap w1 ! performance_df) of
        Inl e \<Rightarrow> (Inl e, w1)
      | Inr bars \<Rightarrow> (Inr (), w1\<lparr>files := (files w1)(file_path \<mapsto> Png bars)\<rparr>))"

section \<open>The whole run\<close>

definition main :: "provider \<Rightarrow> world \<Rightarrow> (error + unit) \<times> world" where
  "main prov w =
     (case load_portfolio PORTFOLIO_CSV_PATH
             (say (Text ''--- Starting Portfolio Performance Tracker ---'') w) of
        (Inl e, w1) \<Rightarrow> (Inl e, w1)
      | (Inr None, w1) \<Rightarrow> (Inr (), say (Text ''--- Script execution failed. ---'') w1)
      | (Inr (Some portfolio), w1) \<Rightarrow>
          (case calculate_performance prov portfolio w1 of
             (Inl e, w2) \<Rightarrow> (Inl e, w2)
           | (Inr performance_data, w2) \<Rightarrow>
               (case generate_summary_and_report performance_data REPORT_CSV_PATH w2 of
                  (Inl e, w3) \<Rightarrow> (Inl e, w3)
                | (Inr u, w3) \<Rightarrow>
                    (case generate_visualization performance_data CHART_PNG_PATH w3 of
                       (Inl e, w4) \<Rightarrow> (Inl e, w4)
                     | (Inr u', w4) \<Rightarrow>
                         (Inr (),
                          say (Text (''Chart: '' @ quoted CHART_PNG_PATH))
                            (say (Text (''Report: '' @ quoted REPORT_CSV_PATH))
                              (say (Text (CHR 0x0A # ''--- Portfolio analysis complete. ---'')) w4)))))))"

section \<open>The example of the specification\<close>

text \<open>
  The holdings of the example with float64 quantities and prices, the same with the
  quantities as int64 values, the quotes and a provider that gives these quotes.
\<close>

definition example_holdings :: dataframe where
  "example_holdings =
     [(''Ticker'', [Str ''AAPL'', Str ''AAPL'', Str ''GOOG'']),
      (''Quantity'', [Num (Fin 10), Num (Fin 5), Num (Fin 2)]),
      (''PurchasePrice'', [Num (Fin 150), Num (Fin 160), Num (Fin 2800)])]"

definition example_holdings_int :: dataframe where
  "example_holdings_int =
     [(''Ticker'', [Str ''AAPL'', Str ''AAPL'', Str ''GOOG'']),
      (''Quantity'', [I64 10, I64 5, I64 2]),
      (''PurchasePrice'', [Num (Fin 150), Num (Fin 160), Num (Fin 2800)])]"

definition example_quotes :: prices where
  "example_quotes = [Str ''AAPL'' \<mapsto> Fin 170, Str ''GOOG'' \<mapsto> Fin 2700]"

definition example_provider :: provider where
  "example_provider t =
     (if t = Str ''AAPL'' then History [Fin 170]
      else if t = Str ''GOOG'' then History [Fin 2700]
      else History [])"

section \<open>The derived columns in closed form\<close>

text \<open>
  The values that the assignments of the calculation leave in each row of a table with
  float64 quantities and prices, written as functions of the row's ticker, quantity and
  purchase price.
\<close>

definition price_of :: "prices \<Rightarrow> cell \<Rightarrow> fval" where
  "price_of d c = (case d c of None \<Rightarrow> NaN | Some v \<Rightarrow> v)"

definition current_prices :: "prices \<Rightarrow> series \<Rightarrow> fval list" where
  "current_prices d ts = map (price_of d) ts"

definition purchase_values :: "fval list \<Rightarrow> fval list \<Rightarrow> fval list" where
  "purchase_values q p = map2 fmul q p"

definition current_values :: "fval list \<Rightarrow> fval list \<Rightarrow> fval list" where
  "current_values q cp = map2 fmul q cp"

definition profit_losses :: "fval list \<Rightarrow> fval list \<Rightarrow> fval list" where
  "profit_losses cv pv = map2 fsub cv pv"

definition percentage_return :: "fval \<Rightarrow> fval \<Rightarrow> fval" where
  "percentage_return pl pv =
     (if fmul (fdiv pl pv) (Fin 100) = NaN then Fin 0 else fmul (fdiv pl pv) (Fin 100))"

definition percentage_returns :: "fval list \<Rightarrow> fval list \<Rightarrow> fval list" where
  "percentage_returns pl pv = map2 percentage_return pl pv"

definition enriched :: "prices \<Rightarrow> series \<Rightarrow> fval list \<Rightarrow> fval list \<Rightarrow> dataframe \<Rightarrow> dataframe" where
  "enriched d ts q p df =
     (let cp = current_prices d ts;
          pv = purchase_values q p;
          cv = current_values q cp;
          pl = profit_losses cv pv
      in setitem (setitem (setitem (setitem (setitem df
           ''CurrentPrice'' (map Num cp))
           ''PurchaseValue'' (map Num pv))
           ''CurrentValue'' (map Num cv))
           ''ProfitLoss'' (map Num pl))
           ''PercentageReturn'' (map Num (percentage_returns pl pv)))"

text \<open>The labels that \<open>calculate_performance\<close> assigns, in the order of the source.\<close>

definition derived_columns :: "string list" where
  "derived_columns =
     [''CurrentPrice'', ''PurchaseValue'', ''CurrentValue'', ''ProfitLoss'', ''PercentageReturn'']"

text \<open>
  The sum of a column as the specification words it: the values of all rows added up,
  a missing value (NaN) counting for nothing.
\<close>

definition total_of :: "fval list \<Rightarrow> fval" where
  "total_of vs = foldr fadd (filter (\<lambda>v. v \<noteq> NaN) vs) (Fin 0)"

text \<open>The table with the five derived columns set to the given cells.\<close>

definition with_metrics ::
  "dataframe \<Rightarrow> series \<Rightarrow> series \<Rightarrow> series \<Rightarrow> series \<Rightarrow> series \<Rightarrow> dataframe" where
  "with_metrics df cp pv cv pl pr =
     setitem (setitem (setitem (setitem (setitem df
       ''CurrentPrice'' cp) ''PurchaseValue'' pv) ''CurrentValue'' cv) ''ProfitLoss'' pl)
       ''PercentageReturn'' pr"

section \<open>Fixtures\<close>



text \<open>
  A table as \<open>pd.read_csv\<close> gives it for integer quantities and prices, whose second
  ticker the example provider does not know, and a run state that has it as object 0; a
  provider that raises for every ticker but the two of the example.
\<close>

definition int_holdings :: dataframe where
  "int_holdings =
     [(''Ticker'', [Str ''AAPL'', Str ''XXXX'']),
      (''Quantity'', [I64 10, I64 4]),
      (''PurchasePrice'', [I64 150, I64 25])]"

definition int_world :: world where
  "int_world = \<lparr>files = Map.empty, heap = [int_holdings], console = []\<rparr>"


text \<open>The enriched table that the specification's example expects.\<close>

definition example_enriched :: dataframe where
  "example_enriched =
     [(''Ticker'', [Str ''AAPL'', Str ''AAPL'', Str ''GOOG'']),
      (''Quantity'', [Num (Fin 10), Num (Fin 5), Num (Fin 2)]),
      (''PurchasePrice'', [Num (Fin 150), Num (Fin 160), Num (Fin 2800)]),
      (''CurrentPrice'', [Num (Fin 170), Num (Fin 170), Num (Fin 2700)]),
      (''PurchaseValue'', [Num (Fin 1500), Num (Fin 800), Num (Fin 5600)]),
      (''CurrentValue'', [Num (Fin 1700), Num (Fin 850), Num (Fin 5400)]),
      (''ProfitLoss'', [Num (Fin 200), Num (Fin 50), Num (Fin (- 200))]),
      (''PercentageReturn'', [Num (Fin (40 / 3)), Num (Fin (25 / 4)), Num (Fin (- (25 / 7)))])]"

text \<open>A run that starts with the example table in the input file and no other file.\<close>

definition example_run :: world where
  "example_run = \<lparr>files = [PORTFOLIO_CSV_PATH \<mapsto> Csv example_holdings], heap = [], console = []\<rparr>"

text \<open>A holding bought at price 0 whose ticker now trades at 5.\<close>

definition free_share_world :: world where
  "free_share_world =
     \<lparr>files = Map.empty,
      heap = [[(''Ticker'', [Str ''FREE'']),
               (''Quantity'', [Num (Fin 10)]),
               (''PurchasePrice'', [Num (Fin 0)])]],
      console = []\<rparr>"

definition free_share_provider :: provider where
  "free_share_provider t = History [Fin 5]"

text \<open>The same holding with quantity and price read as int64 values.\<close>

definition free_share_int_world :: world where
  "free_share_int_world =
     \<lparr>files = Map.empty,
      heap = [[(''Ticker'', [Str ''FREE'']),
               (''Quantity'', [I64 10]),
               (''PurchasePrice'', [I64 0])]],
      console = []\<rparr>"

text \<open>An input file with the three required columns and no rows.\<close>

definition empty_holdings :: dataframe where
  "empty_holdings = [(''Ticker'', []), (''Quantity'', []), (''PurchasePrice'', [])]"

definition empty_run :: world where
  "empty_run = \<lparr>files = [PORTFOLIO_CSV_PATH \<mapsto> Csv empty_holdings], heap = [], console = []\<rparr>"

definition empty_enriched :: dataframe where
  "empty_enriched =
     [(''Ticker'', []), (''Quantity'', []), (''PurchasePrice'', []), (''CurrentPrice'', []),
      (''PurchaseValue'', []), (''CurrentValue'', []), (''ProfitLoss'', []),
      (''PercentageReturn'', [])]"

text \<open>A table whose current values are all zero.\<close>

definition worthless_holdings :: dataframe where
  "worthless_holdings =
     [(''Ticker'', [Str ''AAPL'', Str ''GOOG'']),
      (''CurrentValue'', [Num (Fin 0), Num (Fin 0)])]"

text \<open>A run with no input file, and a run whose input file lacks the purchase price.\<close>

definition no_file_run :: world where
  "no_file_run =
     \<lparr>files = [REPORT_CSV_PATH \<mapsto> Csv example_enriched], heap = [], console = []\<rparr>"

definition bad_schema_run :: world where
  "bad_schema_run =
     \<lparr>files = [PORTFOLIO_CSV_PATH \<mapsto>
                 Csv [(''Ticker'', [Str ''AAPL'']), (''Quantity'', [Num (Fin 10)])]],
      heap = [], console = []\<rparr>"

text \<open>The example table with a fourth column, and a run that reads it.\<close>

definition annotated_holdings :: dataframe where
  "annotated_holdings =
     example_holdings @ [(''Notes'', [Str ''core'', Str ''core'', Str ''growth''])]"

definition annotated_run :: world where
  "annotated_run =
     \<lparr>files = [PORTFOLIO_CSV_PATH \<mapsto> Csv annotated_holdings], heap = [], console = []\<rparr>"

definition annotated_report :: dataframe where
  "annotated_report =
     [(''Ticker'', [Str ''AAPL'', Str ''AAPL'', Str ''GOOG'']),
      (''Quantity'', [Num (Fin 10), Num (Fin 5), Num (Fin 2)]),
      (''PurchasePrice'', [Num (Fin 150), Num (Fin 160), Num (Fin 2800)]),
      (''Notes'', [Str ''core'', Str ''core'', Str ''growth'']),
      (''CurrentPrice'', [Num (Fin 170), Num (Fin 170), Num (Fin 2700)]),
      (''PurchaseValue'', [Num (Fin 1500), Num (Fin 800), Num (Fin 5600)]),
      (''CurrentValue'', [Num (Fin 1700), Num (Fin 850), Num (Fin 5400)]),
      (''ProfitLoss'', [Num (Fin 200), Num (Fin 50), Num (Fin (- 200))]),
      (''PercentageReturn'', [Num (Fin (40 / 3)), Num (Fin (25 / 4)), Num (Fin (- (25 / 7)))])]"

text \<open>A run on the example table that finds a report left by an earlier run.\<close>

definition rerun :: world where
  "rerun =
     \<lparr>files = [PORTFOLIO_CSV_PATH \<mapsto> Csv example_holdings, REPORT_CSV_PATH \<mapsto> Csv empty_enriched],
      heap = [], console = []\<rparr>"

section \<open>Properties of quote resolution\<close>

lemma fetch_one_fst:
  "fst (fetch_one prov (m, out) t) = m(t \<mapsto> recorded_price prov t)"
  by (simp add: fetch_one_def recorded_price_def split: fetch.splits list.splits)

lemma fetch_one_snd_mono:
  "set out \<subseteq> set (snd (fetch_one prov (m, out) t))"
  by (auto simp: fetch_one_def split: fetch.splits list.splits)

lemma fetch_one_warns:
  "failed prov t \<Longrightarrow> warning_for prov t \<in> set (snd (fetch_one prov (m, out) t))"
  by (auto simp: fetch_one_def failed_def warning_for_def split: fetch.splits list.splits)

lemma foldl_fetch_fst:
  "fst (foldl (fetch_one prov) (m, out) ts) =
     (\<lambda>k. if k \<in> set ts then Some (recorded_price prov k) else m k)"
proof (induction ts arbitrary: m out)
  case Nil
  show ?case by simp
next
  case (Cons t ts)
  obtain m' out' where st: "fetch_one prov (m, out) t = (m', out')"
    by (cases "fetch_one prov (m, out) t")
  have m': "m' = m(t \<mapsto> recorded_price prov t)"
    using fetch_one_fst [of prov m out t] st by simp
  show ?case
    by (simp add: st Cons.IH m' fun_eq_iff)
qed

lemma foldl_fetch_snd_mono:
  "set out \<subseteq> set (snd (foldl (fetch_one prov) (m, out) ts))"
proof (induction ts arbitrary: m out)
  case Nil
  show ?case by simp
next
  case (Cons t ts)
  obtain m' out' where st: "fetch_one prov (m, out) t = (m', out')"
    by (cases "fetch_one prov (m, out) t")
  have "set out \<subseteq> set out'"
    using fetch_one_snd_mono [of out prov m t] st by simp
  moreover have "set out' \<subseteq> set (snd (foldl (fetch_one prov) (m', out') ts))"
    by (rule Cons.IH)
  ultimately show ?case
    by (simp add: st)
qed

lemma foldl_fetch_warns:
  "t \<in> set ts \<Longrightarrow> failed prov t \<Longrightarrow>
     warning_for prov t \<in> set (snd (foldl (fetch_one prov) (m, out) ts))"
proof (induction ts arbitrary: m out)
  case Nil
  then show ?case by simp
next
  case (Cons u ts)
  obtain m' out' where st: "fetch_one prov (m, out) u = (m', out')"
    by (cases "fetch_one prov (m, out) u")
  show ?case
  proof (cases "t \<in> set ts")
    case True
    then show ?thesis
      using Cons.IH [of m' out'] Cons.prems(2) by (simp add: st)
  next
    case False
    then have "u = t" using Cons.prems(1) by simp
    then have "warning_for prov t \<in> set out'"
      using fetch_one_warns [of prov t m out] Cons.prems(2) st by simp
    then show ?thesis
      using foldl_fetch_snd_mono [of out' prov m' ts] by (auto simp: st)
  qed
qed

lemma get_live_prices_fst:
  "fst (get_live_prices prov ts) =
     (\<lambda>k. if k \<in> set ts then Some (recorded_price prov k) else None)"
  by (simp add: get_live_prices_def foldl_fetch_fst)

text \<open>
  C6: every input ticker is a key of the returned mapping and no other key is; a ticker
  for which the provider raises or returns an empty frame is recorded at 0.0, and its
  warning is among the lines printed, wherever in the input it stands; a ticker for
  which the provider has data is recorded at its first close, whatever happened to the
  other tickers.
\<close>

theorem get_live_prices_total:
  "dom (fst (get_live_prices prov tickers)) = set tickers \<and>
   (\<forall>t \<in> set tickers.
      (prov t = History [] \<or> (\<exists>e. prov t = Raises e)) \<longrightarrow>
        fst (get_live_prices prov tickers) t = Some (Fin 0) \<and>
        warning_for prov t \<in> set (snd (get_live_prices prov tickers))) \<and>
   (\<forall>t \<in> set tickers. \<forall>c cs.
      prov t = History (c # cs) \<longrightarrow> fst (get_live_prices prov tickers) t = Some c)"
proof -
  have keys: "dom (fst (get_live_prices prov tickers)) = set tickers"
    by (auto simp: get_live_prices_fst dom_def)
  have zero: "fst (get_live_prices prov tickers) t = Some (Fin 0) \<and>
      warning_for prov t \<in> set (snd (get_live_prices prov tickers))"
    if t: "t \<in> set tickers" and f: "prov t = History [] \<or> (\<exists>e. prov t = Raises e)" for t
  proof
    from f have "recorded_price prov t = Fin 0"
      by (auto simp: recorded_price_def)
    then show "fst (get_live_prices prov tickers) t = Some (Fin 0)"
      using t by (simp add: get_live_prices_fst)
    from f have "failed prov t"
      by (auto simp: failed_def)
    then show "warning_for prov t \<in> set (snd (get_live_prices prov tickers))"
      using t foldl_fetch_warns [of t tickers prov] by (simp add: get_live_prices_def)
  qed
  have data: "fst (get_live_prices prov tickers) t = Some c"
    if "t \<in> set tickers" and "prov t = History (c # cs)" for t c cs
    using that by (simp add: get_live_prices_fst recorded_price_def)
  show ?thesis
    using keys zero data by blast
qed

text \<open>
  An instance: the provider returns an empty frame for the first ticker; that ticker is
  recorded at 0.0 with its warning, and the second ticker still gets its price.
\<close>

theorem get_live_prices_total_witness:
  "Str ''XXXX'' \<in> set [Str ''XXXX'', Str ''AAPL''] \<and>
   example_provider (Str ''XXXX'') = History [] \<and>
   dom (fst (get_live_prices example_provider [Str ''XXXX'', Str ''AAPL''])) =
     {Str ''XXXX'', Str ''AAPL''} \<and>
   fst (get_live_prices example_provider [Str ''XXXX'', Str ''AAPL'']) (Str ''XXXX'') = Some (Fin 0) \<and>
   fst (get_live_prices example_provider [Str ''XXXX'', Str ''AAPL'']) (Str ''AAPL'') = Some (Fin 170) \<and>
   FetchWarning (Str ''XXXX'') \<in>
     set (snd (get_live_prices example_provider [Str ''XXXX'', Str ''AAPL'']))"
proof -
  have p: "example_provider (Str ''XXXX'') = History []"
    by (simp add: example_provider_def)
  have a: "fst (get_live_prices example_provider [Str ''XXXX'', Str ''AAPL'']) (Str ''AAPL'') = Some (Fin 170)"
    by (simp add: get_live_prices_fst recorded_price_def example_provider_def)
  show ?thesis
    using get_live_prices_total [of example_provider "[Str ''XXXX'', Str ''AAPL'']"] p a
    by (simp add: warning_for_def)
qed

section \<open>Properties of the calculation\<close>

lemma say_simps:
  "files (say l w) = files w" "heap (say l w) = heap w" "console (say l w) = console w @ [l]"
  by (simp_all add: say_def)

lemma getitem_setitem:
  "getitem (setitem df k s) k' = (if k' = k then Inr s else getitem df k')"
  by (simp add: getitem_def setitem_def update_conv')

lemma setitem_setitem: "setitem (setitem df k s) k s' = setitem df k s'"
  by (simp add: setitem_def)


lemma columns_setitem:
  "columns (setitem df k s) = (if k \<in> set (columns df) then columns df else columns df @ [k])"
  by (simp add: columns_def setitem_def update_keys)






lemma assign_ok:
  "rhs df = Inr s \<Longrightarrow> assign k rhs (None, df) = (None, setitem df k s)"
  by (simp add: assign_def)



lemma set_unique_aux:
  "set (foldl (\<lambda>acc x. if x \<in> set acc then acc else acc @ [x]) acc xs) = set acc \<union> set xs"
  by (induction xs arbitrary: acc) auto

lemma set_unique: "set (unique xs) = set xs"
  by (simp add: unique_def set_unique_aux)




lemma columns_enriched:
  "columns (enriched d ts q p df) =
     columns df @ filter (\<lambda>c. c \<notin> set (columns df)) derived_columns"
  by (simp add: enriched_def Let_def columns_setitem derived_columns_def)

lemma derived_in_columns_enriched:
  "set derived_columns \<subseteq> set (columns (enriched d ts q p df))"
  by (auto simp: columns_enriched)



lemma cell_op_numeric:
  "is_numeric a \<Longrightarrow> is_numeric b \<Longrightarrow> \<exists>c. cell_op op a b = Inr c \<and> is_numeric c"
  by (cases a; cases b; cases op) simp_all

lemma series_op_numeric:
  "list_all is_numeric xs \<Longrightarrow> list_all is_numeric ys \<Longrightarrow>
     \<exists>zs. series_op op xs ys = Inr zs \<and> list_all is_numeric zs"
proof (induction xs arbitrary: ys)
  case Nil
  then show ?case by simp
next
  case (Cons x xs)
  show ?case
  proof (cases ys)
    case Nil
    then show ?thesis by simp
  next
    case (Cons y ys')
    with Cons.prems have n: "is_numeric x" "is_numeric y"
      and r: "list_all is_numeric xs" "list_all is_numeric ys'"
      by simp_all
    obtain c where c: "cell_op op x y = Inr c" "is_numeric c"
      using cell_op_numeric [OF n] by blast
    obtain zs where zs: "series_op op xs ys' = Inr zs" "list_all is_numeric zs"
      using Cons.IH [OF r] by blast
    show ?thesis
      by (simp add: Cons c zs)
  qed
qed


lemma series_map_numeric: "list_all is_numeric (series_map d ts)"
  by (simp add: series_map_def list_all_iff split: option.splits)

lemma series_scale_numeric:
  "list_all is_numeric s \<Longrightarrow> \<exists>t. series_scale s k = Inr t \<and> list_all is_numeric t"
  unfolding series_scale_def
  by (rule series_op_numeric) (simp_all add: list_all_iff)

lemma col_op_ok:
  "getitem df a = Inr x \<Longrightarrow> getitem df b = Inr y \<Longrightarrow> series_op op x y = Inr z \<Longrightarrow>
     col_op op a b df = Inr z"
  by (simp add: col_op_def)

lemma col_op_inv:
  "col_op op a b df = Inr z \<Longrightarrow>
     \<exists>x y. getitem df a = Inr x \<and> getitem df b = Inr y \<and> series_op op x y = Inr z"
  by (auto simp: col_op_def split: sum.splits)

lemma assign_inv:
  assumes "fst (assign name rhs st) = None"
  shows "fst st = None \<and> (\<exists>s. rhs (snd st) = Inr s \<and> snd (assign name rhs st) = setitem (snd st) name s)"
  using assms
  by (cases st) (auto simp: assign_def split: option.splits sum.splits)

lemma getitem_with_metrics:
  "getitem (with_metrics df cp pv cv pl pr) ''CurrentPrice'' = Inr cp"
  "getitem (with_metrics df cp pv cv pl pr) ''PurchaseValue'' = Inr pv"
  "getitem (with_metrics df cp pv cv pl pr) ''CurrentValue'' = Inr cv"
  "getitem (with_metrics df cp pv cv pl pr) ''ProfitLoss'' = Inr pl"
  "getitem (with_metrics df cp pv cv pl pr) ''PercentageReturn'' = Inr pr"
  by (simp_all add: with_metrics_def getitem_setitem)

lemma columns_with_metrics:
  "columns (with_metrics df cp pv cv pl pr) =
     columns df @ filter (\<lambda>c. c \<notin> set (columns df)) derived_columns"
  by (simp add: with_metrics_def columns_setitem derived_columns_def)

lemma derive_metrics_steps:
  assumes T: "getitem df ''Ticker'' = Inr ts"
    and Q: "getitem df ''Quantity'' = Inr q"
    and P: "getitem df ''PurchasePrice'' = Inr p"
    and pv: "series_op Mul q p = Inr pv"
    and cv: "series_op Mul q (series_map d ts) = Inr cv"
    and pl: "series_op Sub cv pv = Inr pl"
    and r0: "series_op Div pl pv = Inr r0"
    and r1: "series_scale r0 100 = Inr r1"
  shows "derive_metrics d df = (None, with_metrics df (series_map d ts) pv cv pl (fillna0 r1))"
proof -
  define df1 where "df1 = setitem df ''CurrentPrice'' (series_map d ts)"
  define df2 where "df2 = setitem df1 ''PurchaseValue'' pv"
  define df3 where "df3 = setitem df2 ''CurrentValue'' cv"
  define df4 where "df4 = setitem df3 ''ProfitLoss'' pl"
  define df5 where "df5 = setitem df4 ''PercentageReturn'' r1"
  define df6 where "df6 = setitem df5 ''PercentageReturn'' (fillna0 r1)"
  have a1: "assign ''CurrentPrice''
       (\<lambda>df. case getitem df ''Ticker'' of Inl e \<Rightarrow> Inl e | Inr s \<Rightarrow> Inr (series_map d s))
       (None, df) = (None, df1)"
    unfolding df1_def by (rule assign_ok) (simp add: T)
  have a2: "assign ''PurchaseValue'' (col_op Mul ''Quantity'' ''PurchasePrice'') (None, df1)
      = (None, df2)"
    unfolding df2_def
    by (rule assign_ok, rule col_op_ok [OF _ _ pv]) (simp_all add: df1_def getitem_setitem Q P)
  have a3: "assign ''CurrentValue'' (col_op Mul ''Quantity'' ''CurrentPrice'') (None, df2)
      = (None, df3)"
    unfolding df3_def
    by (rule assign_ok, rule col_op_ok [OF _ _ cv]) (simp_all add: df2_def df1_def getitem_setitem Q)
  have a4: "assign ''ProfitLoss'' (col_op Sub ''CurrentValue'' ''PurchaseValue'') (None, df3)
      = (None, df4)"
    unfolding df4_def
    by (rule assign_ok, rule col_op_ok [OF _ _ pl]) (simp_all add: df3_def df2_def getitem_setitem)
  have c5: "col_op Div ''ProfitLoss'' ''PurchaseValue'' df4 = Inr r0"
    by (rule col_op_ok [OF _ _ r0]) (simp_all add: df4_def df3_def df2_def getitem_setitem)
  have a5: "assign ''PercentageReturn''
       (\<lambda>df. case col_op Div ''ProfitLoss'' ''PurchaseValue'' df of
                Inl e \<Rightarrow> Inl e | Inr s \<Rightarrow> series_scale s 100)
       (None, df4) = (None, df5)"
    unfolding df5_def by (rule assign_ok) (simp only: c5 sum.case r1)
  have a6: "assign ''PercentageReturn''
       (\<lambda>df. case getitem df ''PercentageReturn'' of Inl e \<Rightarrow> Inl e | Inr s \<Rightarrow> Inr (fillna0 s))
       (None, df5) = (None, df6)"
  proof -
    have "getitem df5 ''PercentageReturn'' = Inr r1"
      by (simp add: df5_def getitem_setitem)
    then show ?thesis
      unfolding df6_def by (intro assign_ok) (simp only: sum.case)
  qed
  have "df6 = with_metrics df (series_map d ts) pv cv pl (fillna0 r1)"
    unfolding df6_def df5_def df4_def df3_def df2_def df1_def with_metrics_def
    by (simp only: setitem_setitem)
  then show ?thesis
    unfolding derive_metrics_def by (simp only: a1 a2 a3 a4 a5 a6)
qed

section \<open>The table is changed in place\<close>

lemma example_holdings_columns:
  "getitem example_holdings ''Ticker'' = Inr [Str ''AAPL'', Str ''AAPL'', Str ''GOOG'']"
  "getitem example_holdings ''Quantity'' = Inr (map Num [Fin 10, Fin 5, Fin 2])"
  "getitem example_holdings ''PurchasePrice'' = Inr (map Num [Fin 150, Fin 160, Fin 2800])"
  by (simp_all add: example_holdings_def getitem_def)

lemma assign_other:
  "c \<noteq> name \<Longrightarrow> getitem (snd (assign name rhs st)) c = getitem (snd st) c"
  by (cases st) (auto simp: assign_def getitem_setitem split: option.splits sum.splits)

lemma assign_success:
  assumes "fst (assign name rhs st) = None"
  shows "fst st = None"
    and "columns (snd (assign name rhs st)) =
      (if name \<in> set (columns (snd st)) then columns (snd st) else columns (snd st) @ [name])"
  using assms
  by (cases st; auto simp: assign_def columns_setitem split: option.splits sum.splits)+

lemma derive_metrics_other:
  "c \<notin> set derived_columns \<Longrightarrow> getitem (snd (derive_metrics d df)) c = getitem df c"
  by (simp add: derive_metrics_def derived_columns_def assign_other)

lemma derive_metrics_columns:
  assumes "fst (derive_metrics d df) = None"
  shows "columns (snd (derive_metrics d df)) =
     columns df @ filter (\<lambda>c. c \<notin> set (columns df)) derived_columns"
proof -
  define st1 where "st1 = assign ''CurrentPrice''
       (\<lambda>df. case getitem df ''Ticker'' of Inl e \<Rightarrow> Inl e | Inr s \<Rightarrow> Inr (series_map d s))
       (None, df)"
  define st2 where "st2 = assign ''PurchaseValue'' (col_op Mul ''Quantity'' ''PurchasePrice'') st1"
  define st3 where "st3 = assign ''CurrentValue'' (col_op Mul ''Quantity'' ''CurrentPrice'') st2"
  define st4 where "st4 = assign ''ProfitLoss'' (col_op Sub ''CurrentValue'' ''PurchaseValue'') st3"
  define st5 where "st5 = assign ''PercentageReturn''
       (\<lambda>df. case col_op Div ''ProfitLoss'' ''PurchaseValue'' df of
                Inl e \<Rightarrow> Inl e | Inr s \<Rightarrow> series_scale s 100) st4"
  define st6 where "st6 = assign ''PercentageReturn''
       (\<lambda>df. case getitem df ''PercentageReturn'' of Inl e \<Rightarrow> Inl e | Inr s \<Rightarrow> Inr (fillna0 s))
       st5"
  have d: "derive_metrics d df = st6"
    by (simp only: derive_metrics_def st1_def st2_def st3_def st4_def st5_def st6_def)
  have n6: "fst st6 = None"
    using assms by (simp only: d)
  have n5: "fst st5 = None" and c6: "columns (snd st6) =
      (if ''PercentageReturn'' \<in> set (columns (snd st5)) then columns (snd st5)
       else columns (snd st5) @ [''PercentageReturn''])"
    using assign_success [OF n6 [unfolded st6_def]] by (simp_all only: st6_def)
  have n4: "fst st4 = None" and c5: "columns (snd st5) =
      (if ''PercentageReturn'' \<in> set (columns (snd st4)) then columns (snd st4)
       else columns (snd st4) @ [''PercentageReturn''])"
    using assign_success [OF n5 [unfolded st5_def]] by (simp_all only: st5_def)
  have n3: "fst st3 = None" and c4: "columns (snd st4) =
      (if ''ProfitLoss'' \<in> set (columns (snd st3)) then columns (snd st3)
       else columns (snd st3) @ [''ProfitLoss''])"
    using assign_success [OF n4 [unfolded st4_def]] by (simp_all only: st4_def)
  have n2: "fst st2 = None" and c3: "columns (snd st3) =
      (if ''CurrentValue'' \<in> set (columns (snd st2)) then columns (snd st2)
       else columns (snd st2) @ [''CurrentValue''])"
    using assign_success [OF n3 [unfolded st3_def]] by (simp_all only: st3_def)
  have n1: "fst st1 = None" and c2: "columns (snd st2) =
      (if ''PurchaseValue'' \<in> set (columns (snd st1)) then columns (snd st1)
       else columns (snd st1) @ [''PurchaseValue''])"
    using assign_success [OF n2 [unfolded st2_def]] by (simp_all only: st2_def)
  have c1: "columns (snd st1) =
      (if ''CurrentPrice'' \<in> set (columns df) then columns df
       else columns df @ [''CurrentPrice''])"
    using assign_success(2) [OF n1 [unfolded st1_def]] by (simp only: st1_def snd_conv)
  show ?thesis
    unfolding d c6 c5 c4 c3 c2 c1 derived_columns_def by simp
qed

lemma calculate_performance_returns:
  assumes "fst (calculate_performance prov r w) = Inr r'"
  shows "\<exists>ts. getitem (heap w ! r) ''Ticker'' = Inr ts \<and> r' = r \<and>
     fst (derive_metrics (fst (get_live_prices prov (unique ts))) (heap w ! r)) = None \<and>
     heap (snd (calculate_performance prov r w)) =
       (heap w)[r := snd (derive_metrics (fst (get_live_prices prov (unique ts))) (heap w ! r))] \<and>
     files (snd (calculate_performance prov r w)) = files w"
  using assms
  by (auto simp: calculate_performance_def Let_def say_simps
      split: sum.splits prod.splits option.splits)

lemma derive_metrics_inv:
  assumes ok: "fst (derive_metrics d df) = None"
  shows "\<exists>ts q p pv cv pl r0 r1.
     getitem df ''Ticker'' = Inr ts \<and>
     getitem df ''Quantity'' = Inr q \<and>
     getitem df ''PurchasePrice'' = Inr p \<and>
     series_op Mul q p = Inr pv \<and>
     series_op Mul q (series_map d ts) = Inr cv \<and>
     series_op Sub cv pv = Inr pl \<and>
     series_op Div pl pv = Inr r0 \<and>
     series_scale r0 100 = Inr r1 \<and>
     snd (derive_metrics d df) = with_metrics df (series_map d ts) pv cv pl (fillna0 r1)"
proof -
  define st1 where "st1 = assign ''CurrentPrice''
       (\<lambda>df. case getitem df ''Ticker'' of Inl e \<Rightarrow> Inl e | Inr s \<Rightarrow> Inr (series_map d s))
       (None, df)"
  define st2 where "st2 = assign ''PurchaseValue'' (col_op Mul ''Quantity'' ''PurchasePrice'') st1"
  define st3 where "st3 = assign ''CurrentValue'' (col_op Mul ''Quantity'' ''CurrentPrice'') st2"
  define st4 where "st4 = assign ''ProfitLoss'' (col_op Sub ''CurrentValue'' ''PurchaseValue'') st3"
  define st5 where "st5 = assign ''PercentageReturn''
       (\<lambda>df. case col_op Div ''ProfitLoss'' ''PurchaseValue'' df of
                Inl e \<Rightarrow> Inl e | Inr s \<Rightarrow> series_scale s 100) st4"
  define st6 where "st6 = assign ''PercentageReturn''
       (\<lambda>df. case getitem df ''PercentageReturn'' of Inl e \<Rightarrow> Inl e | Inr s \<Rightarrow> Inr (fillna0 s))
       st5"
  have d: "derive_metrics d df = st6"
    by (simp only: derive_metrics_def st1_def st2_def st3_def st4_def st5_def st6_def)
  have n6: "fst st6 = None"
    using ok by (simp only: d)
  have n5: "fst st5 = None"
    using assign_inv [OF n6 [unfolded st6_def]] by simp
  obtain s5 where n4: "fst st4 = None"
    and e5: "(case col_op Div ''ProfitLoss'' ''PurchaseValue'' (snd st4) of
                Inl e \<Rightarrow> Inl e | Inr s \<Rightarrow> series_scale s 100) = Inr s5"
    using assign_inv [OF n5 [unfolded st5_def]] by blast
  obtain s4 where n3: "fst st3 = None"
    and e4: "col_op Sub ''CurrentValue'' ''PurchaseValue'' (snd st3) = Inr s4"
    and d4: "snd st4 = setitem (snd st3) ''ProfitLoss'' s4"
    using assign_inv [OF n4 [unfolded st4_def]] unfolding st4_def by blast
  obtain s3 where n2: "fst st2 = None"
    and e3: "col_op Mul ''Quantity'' ''CurrentPrice'' (snd st2) = Inr s3"
    and d3: "snd st3 = setitem (snd st2) ''CurrentValue'' s3"
    using assign_inv [OF n3 [unfolded st3_def]] unfolding st3_def by blast
  obtain s2 where n1: "fst st1 = None"
    and e2: "col_op Mul ''Quantity'' ''PurchasePrice'' (snd st1) = Inr s2"
    and d2: "snd st2 = setitem (snd st1) ''PurchaseValue'' s2"
    using assign_inv [OF n2 [unfolded st2_def]] unfolding st2_def by blast
  obtain s1 where e1: "(case getitem df ''Ticker'' of Inl e \<Rightarrow> Inl e | Inr s \<Rightarrow> Inr (series_map d s)) = Inr s1"
    and d1: "snd st1 = setitem df ''CurrentPrice'' s1"
    using assign_inv [OF n1 [unfolded st1_def]] unfolding st1_def by auto
  obtain ts where T: "getitem df ''Ticker'' = Inr ts" and s1: "s1 = series_map d ts"
    using e1 by (auto split: sum.splits)
  obtain q p where Q: "getitem df ''Quantity'' = Inr q" and P: "getitem df ''PurchasePrice'' = Inr p"
    and pv: "series_op Mul q p = Inr s2"
    using col_op_inv [OF e2] by (auto simp: d1 getitem_setitem)
  have cv: "series_op Mul q (series_map d ts) = Inr s3"
    using col_op_inv [OF e3] Q by (auto simp: d2 d1 s1 getitem_setitem)
  have pl: "series_op Sub s3 s2 = Inr s4"
    using col_op_inv [OF e4] by (auto simp: d3 d2 getitem_setitem)
  obtain r0 where c5: "col_op Div ''ProfitLoss'' ''PurchaseValue'' (snd st4) = Inr r0"
    and r1: "series_scale r0 100 = Inr s5"
    using e5 by (auto split: sum.splits)
  have r0: "series_op Div s4 s2 = Inr r0"
    using col_op_inv [OF c5] by (auto simp: d4 d3 d2 getitem_setitem)
  have "derive_metrics d df = (None, with_metrics df (series_map d ts) s2 s3 s4 (fillna0 s5))"
    using T Q P pv cv pl r0 r1 by (rule derive_metrics_steps)
  then show ?thesis
    using T Q P pv cv pl r0 r1 by auto
qed

lemma derive_metrics_total:
  assumes T: "getitem df ''Ticker'' = Inr ts"
    and Q: "getitem df ''Quantity'' = Inr q"
    and P: "getitem df ''PurchasePrice'' = Inr p"
    and nq: "list_all is_numeric q"
    and np: "list_all is_numeric p"
  shows "fst (derive_metrics d df) = None"
proof -
  obtain pv where pv: "series_op Mul q p = Inr pv" "list_all is_numeric pv"
    using series_op_numeric [OF nq np] by blast
  obtain cv where cv: "series_op Mul q (series_map d ts) = Inr cv" "list_all is_numeric cv"
    using series_op_numeric [OF nq series_map_numeric] by blast
  obtain pl where pl: "series_op Sub cv pv = Inr pl" "list_all is_numeric pl"
    using series_op_numeric [OF cv(2) pv(2)] by blast
  obtain r0 where r0: "series_op Div pl pv = Inr r0" "list_all is_numeric r0"
    using series_op_numeric [OF pl(2) pv(2)] by blast
  obtain r1 where r1: "series_scale r0 100 = Inr r1"
    using series_scale_numeric [OF r0(2)] by blast
  show ?thesis
    using derive_metrics_steps [OF T Q P pv(1) cv(1) pl(1) r0(1) r1] by simp
qed

lemma calculate_performance_total:
  assumes T: "getitem (heap w ! r) ''Ticker'' = Inr ts"
    and Q: "getitem (heap w ! r) ''Quantity'' = Inr q"
    and P: "getitem (heap w ! r) ''PurchasePrice'' = Inr p"
    and nq: "list_all is_numeric q"
    and np: "list_all is_numeric p"
  shows "fst (calculate_performance prov r w) = Inr r"
proof -
  obtain lp out where g: "get_live_prices prov (unique ts) = (lp, out)"
    by (cases "get_live_prices prov (unique ts)")
  have "fst (derive_metrics lp (heap w ! r)) = None"
    using T Q P nq np by (rule derive_metrics_total)
  then obtain df' where "derive_metrics lp (heap w ! r) = (None, df')"
    by (cases "derive_metrics lp (heap w ! r)") simp
  then show ?thesis
    by (simp add: calculate_performance_def Let_def say_simps T g)
qed

lemma calculate_performance_steps:
  assumes T: "getitem (heap w ! r) ''Ticker'' = Inr ts"
    and dm: "derive_metrics (fst (get_live_prices prov (unique ts))) (heap w ! r) = (None, df')"
  shows "calculate_performance prov r w =
     (Inr r,
      w\<lparr>console := console w @ Text ''Calculating portfolio performance...''
                       # snd (get_live_prices prov (unique ts)),
        heap := (heap w)[r := df']\<rparr>)"
proof -
  obtain lp out where g: "get_live_prices prov (unique ts) = (lp, out)"
    by (cases "get_live_prices prov (unique ts)")
  have d: "derive_metrics lp (heap w ! r) = (None, df')"
    using dm by (simp add: g)
  show ?thesis
    unfolding calculate_performance_def
    by (simp add: say_def T g d)
qed


lemma int_holdings_columns:
  "getitem int_holdings ''Ticker'' = Inr [Str ''AAPL'', Str ''XXXX'']"
  "getitem int_holdings ''Quantity'' = Inr [I64 10, I64 4]"
  "getitem int_holdings ''PurchasePrice'' = Inr [I64 150, I64 25]"
  by (simp_all add: int_holdings_def getitem_def)

lemma int_holdings_prices:
  "series_map (fst (get_live_prices example_provider (unique [Str ''AAPL'', Str ''XXXX''])))
     [Str ''AAPL'', Str ''XXXX''] = [Num (Fin 170), Num (Fin 0)]"
  by (simp add: series_map_def get_live_prices_fst set_unique recorded_price_def
      example_provider_def)

text \<open>
  C10: \<open>calculate_performance\<close> returns on every table with a ticker column and
  numeric quantity and purchase price columns, and whenever it returns, what it returns
  is the reference it was given; no DataFrame object has been created and no other
  object or file has changed; the object behind the reference keeps its columns in their
  order and has the five derived columns after them (those it did not already have);
  every column that is not a derived one, the three input columns among them, has the
  cells it had, in the same row order; and the five derived columns hold, row by row,
  the price recorded for the row's ticker, quantity times purchase price, quantity times
  current price, current value minus purchase value, and that difference over the
  purchase value times 100 with NaN replaced by 0.
\<close>

theorem calculate_performance_in_place:
  assumes r: "r < length (heap w)"
  shows "(getitem (heap w ! r) ''Ticker'' = Inr ts \<and>
      getitem (heap w ! r) ''Quantity'' = Inr q \<and>
      getitem (heap w ! r) ''PurchasePrice'' = Inr p \<and>
      list_all is_numeric q \<and> list_all is_numeric p \<longrightarrow>
        fst (calculate_performance prov r w) = Inr r) \<and>
     (fst (calculate_performance prov r w) = Inr r' \<longrightarrow>
        r' = r \<and>
        length (heap (snd (calculate_performance prov r w))) = length (heap w) \<and>
        (\<forall>k. k \<noteq> r \<longrightarrow> heap (snd (calculate_performance prov r w)) ! k = heap w ! k) \<and>
        files (snd (calculate_performance prov r w)) = files w \<and>
        columns (heap (snd (calculate_performance prov r w)) ! r) =
          columns (heap w ! r) @ filter (\<lambda>c. c \<notin> set (columns (heap w ! r))) derived_columns \<and>
        set derived_columns \<subseteq> set (columns (heap (snd (calculate_performance prov r w)) ! r)) \<and>
        (\<forall>c. c \<notin> set derived_columns \<longrightarrow>
           getitem (heap (snd (calculate_performance prov r w)) ! r) c = getitem (heap w ! r) c) \<and>
        (\<exists>tickers quantity price pv cv pl r0 r1.
           getitem (heap w ! r) ''Ticker'' = Inr tickers \<and>
           getitem (heap w ! r) ''Quantity'' = Inr quantity \<and>
           getitem (heap w ! r) ''PurchasePrice'' = Inr price \<and>
           series_op Mul quantity price = Inr pv \<and>
           series_op Mul quantity
             (series_map (fst (get_live_prices prov (unique tickers))) tickers) = Inr cv \<and>
           series_op Sub cv pv = Inr pl \<and>
           series_op Div pl pv = Inr r0 \<and>
           series_scale r0 100 = Inr r1 \<and>
           getitem (heap (snd (calculate_performance prov r w)) ! r) ''CurrentPrice'' =
             Inr (series_map (fst (get_live_prices prov (unique tickers))) tickers) \<and>
           getitem (heap (snd (calculate_performance prov r w)) ! r) ''PurchaseValue'' = Inr pv \<and>
           getitem (heap (snd (calculate_performance prov r w)) ! r) ''CurrentValue'' = Inr cv \<and>
           getitem (heap (snd (calculate_performance prov r w)) ! r) ''ProfitLoss'' = Inr pl \<and>
           getitem (heap (snd (calculate_performance prov r w)) ! r) ''PercentageReturn'' =
             Inr (fillna0 r1)))"
proof (intro conjI impI)
  assume "getitem (heap w ! r) ''Ticker'' = Inr ts \<and>
      getitem (heap w ! r) ''Quantity'' = Inr q \<and>
      getitem (heap w ! r) ''PurchasePrice'' = Inr p \<and>
      list_all is_numeric q \<and> list_all is_numeric p"
  then show "fst (calculate_performance prov r w) = Inr r"
    by (elim conjE) (rule calculate_performance_total)
next
  assume ret: "fst (calculate_performance prov r w) = Inr r'"
  let ?w' = "snd (calculate_performance prov r w)"
  from calculate_performance_returns [OF ret]
  obtain ts' where same: "r' = r"
    and T': "getitem (heap w ! r) ''Ticker'' = Inr ts'"
    and ok: "fst (derive_metrics (fst (get_live_prices prov (unique ts'))) (heap w ! r)) = None"
    and h: "heap ?w' =
       (heap w)[r := snd (derive_metrics (fst (get_live_prices prov (unique ts'))) (heap w ! r))]"
    and f: "files ?w' = files w"
    by blast
  let ?d = "fst (get_live_prices prov (unique ts'))"
  let ?df' = "snd (derive_metrics ?d (heap w ! r))"
  have at: "heap ?w' ! r = ?df'"
    using r by (simp add: h)
  have cols: "columns ?df' =
      columns (heap w ! r) @ filter (\<lambda>c. c \<notin> set (columns (heap w ! r))) derived_columns"
    using ok by (rule derive_metrics_columns)
  from derive_metrics_inv [OF ok]
  obtain ts2 q2 p2 pv cv pl r0 r1 where T2: "getitem (heap w ! r) ''Ticker'' = Inr ts2"
    and Q2: "getitem (heap w ! r) ''Quantity'' = Inr q2"
    and P2: "getitem (heap w ! r) ''PurchasePrice'' = Inr p2"
    and e: "series_op Mul q2 p2 = Inr pv" "series_op Mul q2 (series_map ?d ts2) = Inr cv"
      "series_op Sub cv pv = Inr pl" "series_op Div pl pv = Inr r0" "series_scale r0 100 = Inr r1"
    and res: "?df' = with_metrics (heap w ! r) (series_map ?d ts2) pv cv pl (fillna0 r1)"
    by (elim exE conjE)
  have ts2: "ts2 = ts'"
    using T' T2 by simp
  show "r' = r"
    by (rule same)
  show "length (heap ?w') = length (heap w)"
    by (simp add: h)
  show "\<forall>k. k \<noteq> r \<longrightarrow> heap ?w' ! k = heap w ! k"
    by (simp add: h)
  show "files ?w' = files w"
    by (rule f)
  show "columns (heap ?w' ! r) =
      columns (heap w ! r) @ filter (\<lambda>c. c \<notin> set (columns (heap w ! r))) derived_columns"
    unfolding at by (rule cols)
  show "set derived_columns \<subseteq> set (columns (heap ?w' ! r))"
    unfolding at cols by auto
  show "\<forall>c. c \<notin> set derived_columns \<longrightarrow> getitem (heap ?w' ! r) c = getitem (heap w ! r) c"
    unfolding at by (simp add: derive_metrics_other)
  show "\<exists>tickers quantity price pv cv pl r0 r1.
           getitem (heap w ! r) ''Ticker'' = Inr tickers \<and>
           getitem (heap w ! r) ''Quantity'' = Inr quantity \<and>
           getitem (heap w ! r) ''PurchasePrice'' = Inr price \<and>
           series_op Mul quantity price = Inr pv \<and>
           series_op Mul quantity
             (series_map (fst (get_live_prices prov (unique tickers))) tickers) = Inr cv \<and>
           series_op Sub cv pv = Inr pl \<and>
           series_op Div pl pv = Inr r0 \<and>
           series_scale r0 100 = Inr r1 \<and>
           getitem (heap ?w' ! r) ''CurrentPrice'' =
             Inr (series_map (fst (get_live_prices prov (unique tickers))) tickers) \<and>
           getitem (heap ?w' ! r) ''PurchaseValue'' = Inr pv \<and>
           getitem (heap ?w' ! r) ''CurrentValue'' = Inr cv \<and>
           getitem (heap ?w' ! r) ''ProfitLoss'' = Inr pl \<and>
           getitem (heap ?w' ! r) ''PercentageReturn'' = Inr (fillna0 r1)"
  proof (intro exI conjI)
    show "getitem (heap w ! r) ''Ticker'' = Inr ts'" by (rule T')
    show "getitem (heap w ! r) ''Quantity'' = Inr q2" by (rule Q2)
    show "getitem (heap w ! r) ''PurchasePrice'' = Inr p2" by (rule P2)
    show "series_op Mul q2 p2 = Inr pv" by (rule e)
    show "series_op Mul q2 (series_map ?d ts') = Inr cv" using e(2) by (simp only: ts2)
    show "series_op Sub cv pv = Inr pl" by (rule e)
    show "series_op Div pl pv = Inr r0" by (rule e)
    show "series_scale r0 100 = Inr r1" by (rule e)
    show "getitem (heap ?w' ! r) ''CurrentPrice'' = Inr (series_map ?d ts')"
      by (simp only: at res ts2 getitem_with_metrics)
    show "getitem (heap ?w' ! r) ''PurchaseValue'' = Inr pv"
      by (simp only: at res getitem_with_metrics)
    show "getitem (heap ?w' ! r) ''CurrentValue'' = Inr cv"
      by (simp only: at res getitem_with_metrics)
    show "getitem (heap ?w' ! r) ''ProfitLoss'' = Inr pl"
      by (simp only: at res getitem_with_metrics)
    show "getitem (heap ?w' ! r) ''PercentageReturn'' = Inr (fillna0 r1)"
      by (simp only: at res getitem_with_metrics)
  qed
qed

text \<open>
  An instance: the table of integer quantities and prices as object 0; the second
  ticker has no data, so its current price is 0.0.
\<close>

theorem calculate_performance_in_place_witness:
  "(0::nat) < length (heap int_world) \<and>
   getitem (heap int_world ! 0) ''Ticker'' = Inr [Str ''AAPL'', Str ''XXXX''] \<and>
   getitem (heap int_world ! 0) ''Quantity'' = Inr [I64 10, I64 4] \<and>
   getitem (heap int_world ! 0) ''PurchasePrice'' = Inr [I64 150, I64 25] \<and>
   list_all is_numeric [I64 10, I64 4] \<and> list_all is_numeric [I64 150, I64 25] \<and>
   fst (calculate_performance example_provider 0 int_world) = Inr 0 \<and>
   length (heap (snd (calculate_performance example_provider 0 int_world))) = 1 \<and>
   files (snd (calculate_performance example_provider 0 int_world)) = files int_world \<and>
   columns (heap (snd (calculate_performance example_provider 0 int_world)) ! 0) =
     [''Ticker'', ''Quantity'', ''PurchasePrice'', ''CurrentPrice'', ''PurchaseValue'',
      ''CurrentValue'', ''ProfitLoss'', ''PercentageReturn''] \<and>
   getitem (heap (snd (calculate_performance example_provider 0 int_world)) ! 0) ''Ticker'' =
     Inr [Str ''AAPL'', Str ''XXXX''] \<and>
   getitem (heap (snd (calculate_performance example_provider 0 int_world)) ! 0) ''Quantity'' =
     Inr [I64 10, I64 4] \<and>
   getitem (heap (snd (calculate_performance example_provider 0 int_world)) ! 0) ''PurchasePrice'' =
     Inr [I64 150, I64 25] \<and>
   getitem (heap (snd (calculate_performance example_provider 0 int_world)) ! 0) ''CurrentPrice'' =
     Inr [Num (Fin 170), Num (Fin 0)] \<and>
   getitem (heap (snd (calculate_performance example_provider 0 int_world)) ! 0) ''PurchaseValue'' =
     Inr [I64 1500, I64 100] \<and>
   getitem (heap (snd (calculate_performance example_provider 0 int_world)) ! 0) ''CurrentValue'' =
     Inr [Num (Fin 1700), Num (Fin 0)] \<and>
   getitem (heap (snd (calculate_performance example_provider 0 int_world)) ! 0) ''ProfitLoss'' =
     Inr [Num (Fin 200), Num (Fin (- 100))] \<and>
   getitem (heap (snd (calculate_performance example_provider 0 int_world)) ! 0) ''PercentageReturn'' =
     Inr [Num (Fin (40 / 3)), Num (Fin (- 100))]"
proof -
  let ?new = "heap (snd (calculate_performance example_provider 0 int_world)) ! 0"
  have h: "heap int_world ! 0 = int_holdings" "length (heap int_world) = 1"
    "(0::nat) < length (heap int_world)"
    by (simp_all add: int_world_def)
  have g: "getitem (heap int_world ! 0) ''Ticker'' = Inr [Str ''AAPL'', Str ''XXXX'']"
    "getitem (heap int_world ! 0) ''Quantity'' = Inr [I64 10, I64 4]"
    "getitem (heap int_world ! 0) ''PurchasePrice'' = Inr [I64 150, I64 25]"
    unfolding h by (rule int_holdings_columns)+
  have c: "columns (heap int_world ! 0) = [''Ticker'', ''Quantity'', ''PurchasePrice'']"
    by (simp add: h int_holdings_def columns_def)
  have n: "list_all is_numeric [I64 10, I64 4]" "list_all is_numeric [I64 150, I64 25]"
    by simp_all
  have d: "''Ticker'' \<notin> set derived_columns" "''Quantity'' \<notin> set derived_columns"
    "''PurchasePrice'' \<notin> set derived_columns"
    by (simp_all add: derived_columns_def)
  note t = calculate_performance_in_place [OF h(3), of "[Str ''AAPL'', Str ''XXXX'']"
      "[I64 10, I64 4]" "[I64 150, I64 25]" example_provider 0]
  have ret: "fst (calculate_performance example_provider 0 int_world) = Inr 0"
    using t g n by blast
  from t [THEN conjunct2, THEN mp, OF ret]
  obtain tickers quantity price pv cv pl r0 r1
    where len: "length (heap (snd (calculate_performance example_provider 0 int_world))) =
        length (heap int_world)"
      and fl: "files (snd (calculate_performance example_provider 0 int_world)) = files int_world"
      and cols: "columns ?new = columns (heap int_world ! 0) @
          filter (\<lambda>c. c \<notin> set (columns (heap int_world ! 0))) derived_columns"
      and oth: "\<forall>c. c \<notin> set derived_columns \<longrightarrow> getitem ?new c = getitem (heap int_world ! 0) c"
      and T: "getitem (heap int_world ! 0) ''Ticker'' = Inr tickers"
      and Q: "getitem (heap int_world ! 0) ''Quantity'' = Inr quantity"
      and P: "getitem (heap int_world ! 0) ''PurchasePrice'' = Inr price"
      and pv: "series_op Mul quantity price = Inr pv"
      and cv: "series_op Mul quantity
          (series_map (fst (get_live_prices example_provider (unique tickers))) tickers) = Inr cv"
      and pl: "series_op Sub cv pv = Inr pl"
      and r0: "series_op Div pl pv = Inr r0"
      and r1: "series_scale r0 100 = Inr r1"
      and CP: "getitem ?new ''CurrentPrice'' =
          Inr (series_map (fst (get_live_prices example_provider (unique tickers))) tickers)"
      and PV: "getitem ?new ''PurchaseValue'' = Inr pv"
      and CV: "getitem ?new ''CurrentValue'' = Inr cv"
      and PL: "getitem ?new ''ProfitLoss'' = Inr pl"
      and PR: "getitem ?new ''PercentageReturn'' = Inr (fillna0 r1)"
    by (elim conjE exE)
  have tq: "tickers = [Str ''AAPL'', Str ''XXXX'']" "quantity = [I64 10, I64 4]"
    "price = [I64 150, I64 25]"
    using T Q P g by simp_all
  have pv': "pv = [I64 1500, I64 100]"
    using pv by (simp add: tq wrap64_def)
  have cp': "series_map (fst (get_live_prices example_provider (unique tickers))) tickers =
      [Num (Fin 170), Num (Fin 0)]"
    unfolding tq by (rule int_holdings_prices)
  have cv': "cv = [Num (Fin 1700), Num (Fin 0)]"
    using cv by (simp add: tq int_holdings_prices)
  have pl': "pl = [Num (Fin 200), Num (Fin (- 100))]"
    using pl by (simp add: cv' pv' fsub_def)
  have r0': "r0 = [Num (Fin (2 / 15)), Num (Fin (- 1))]"
    using r0 by (simp add: pl' pv')
  have r1': "fillna0 r1 = [Num (Fin (40 / 3)), Num (Fin (- 100))]"
    using r1 by (auto simp: r0' series_scale_def fillna0_def)
  have keep: "getitem ?new ''Ticker'' = Inr [Str ''AAPL'', Str ''XXXX'']"
    "getitem ?new ''Quantity'' = Inr [I64 10, I64 4]"
    "getitem ?new ''PurchasePrice'' = Inr [I64 150, I64 25]"
    using oth d g by simp_all
  have cols': "columns ?new =
     [''Ticker'', ''Quantity'', ''PurchasePrice'', ''CurrentPrice'', ''PurchaseValue'',
      ''CurrentValue'', ''ProfitLoss'', ''PercentageReturn'']"
    using cols by (simp add: c derived_columns_def)
  show ?thesis
    using h(3) g n ret len fl cols' keep CP PV CV PL PR
    by (simp only: cp' pv' cv' pl' r1' h(2) simp_thms)
qed

section \<open>Tickers and the price dictionary\<close>








section \<open>Effects and repetition of the calculation\<close>






section \<open>Totals\<close>

lemma nansum_total_of: "nansum vs = total_of vs"
  by (induction vs) (simp_all add: total_of_def)

lemma series_sum_Num: "series_sum (map Num vs) = Inr (total_of vs)"
proof (cases vs)
  case Nil
  then show ?thesis
    by (simp add: series_sum_def wrap64_def total_of_def)
next
  case (Cons v vs')
  have "\<not> list_ex (\<lambda>c. \<not> is_numeric c) (map Num vs)"
    by (simp add: list_ex_iff)
  moreover have "\<not> list_all is_int (map Num vs)"
    using Cons by simp
  moreover have "map float_of (map Num vs) = vs"
    by (simp add: map_idI)
  ultimately show ?thesis
    by (simp add: series_sum_def nansum_total_of)
qed

lemma total_of_finite: "total_of (map Fin xs) = Fin (sum_list xs)"
  by (induction xs) (simp_all add: total_of_def)

lemma total_of_no_nan: "NaN \<notin> set vs \<Longrightarrow> total_of vs = foldr fadd vs (Fin 0)"
proof -
  assume "NaN \<notin> set vs"
  then have "filter (\<lambda>v. v \<noteq> NaN) vs = vs"
    by (induction vs) auto
  then show ?thesis
    by (simp add: total_of_def)
qed

lemma portfolio_totals_Num:
  assumes "getitem df ''PurchaseValue'' = Inr (map Num pv)"
    and "getitem df ''CurrentValue'' = Inr (map Num cv)"
    and "getitem df ''ProfitLoss'' = Inr (map Num pl)"
  shows "portfolio_totals df =
     Inr (total_of pv, total_of cv, total_of pl,
          if fgt0 (total_of pv) then fmul (fdiv (total_of pl) (total_of pv)) (Fin 100) else Fin 0)"
  unfolding portfolio_totals_def
  by (simp only: assms series_sum_Num sum.case)



section \<open>The example, evaluated\<close>

lemma example_quotes_resolved:
  "fst (get_live_prices example_provider (unique [Str ''AAPL'', Str ''AAPL'', Str ''GOOG''])) =
     example_quotes"
  by (simp add: get_live_prices_fst unique_def example_quotes_def example_provider_def
      recorded_price_def fun_eq_iff)

text \<open>
  C8: the example of the specification. The rows, the totals (the return is 50/79
  percent, which prints as 0.63), and the chart entries with GOOG first; the whole run
  on this input writes this table and this chart.
\<close>

theorem spec_example:
  "derive_metrics example_quotes example_holdings = (None, example_enriched) \<and>
   portfolio_totals example_enriched = Inr (Fin 7900, Fin 7950, Fin 50, Fin (50 / 79)) \<and>
   (125 / 200 :: rat) \<le> 50 / 79 \<and> (50 / 79 :: rat) < 127 / 200 \<and>
   chart_bars example_enriched =
     Inr [(Str ''GOOG'', Fin 5400, Fin 1), (Str ''AAPL'', Fin 2550, Fin (17 / 36))] \<and>
   fst (main example_provider example_run) = Inr () \<and>
   files (snd (main example_provider example_run)) REPORT_CSV_PATH = Some (Csv example_enriched) \<and>
   files (snd (main example_provider example_run)) CHART_PNG_PATH =
     Some (Png [(Str ''GOOG'', Fin 5400, Fin 1), (Str ''AAPL'', Fin 2550, Fin (17 / 36))])"
  by code_simp

lemma spec_example_int_quantities:
  "derive_metrics example_quotes example_holdings_int =
     (None, setitem example_enriched ''Quantity'' [I64 10, I64 5, I64 2])"
  by code_simp

section \<open>A purchase value of zero\<close>

lemma percentage_return_zero_purchase:
  "percentage_return (Fin x) (Fin 0) = (if x = 0 then Fin 0 else inf_of_sign x)"
  by (simp add: percentage_return_def inf_of_sign_def)

text \<open>
  C1 fails on the code: ten units bought at price 0 and now quoted at 5 have purchase
  value 0 and profit 50; 50 / 0 is infinite, \<open>fillna\<close> replaces NaN only, and the
  percentage return of the row is infinite, not 0.
\<close>

theorem zero_purchase_value_infinite_return:
  "fst (calculate_performance free_share_provider 0 free_share_world) = Inr 0 \<and>
   getitem (heap (snd (calculate_performance free_share_provider 0 free_share_world)) ! 0)
     ''PurchaseValue'' = Inr [Num (Fin 0)] \<and>
   getitem (heap (snd (calculate_performance free_share_provider 0 free_share_world)) ! 0)
     ''ProfitLoss'' = Inr [Num (Fin 50)] \<and>
   getitem (heap (snd (calculate_performance free_share_provider 0 free_share_world)) ! 0)
     ''PercentageReturn'' = Inr [Num PInf]"
  by code_simp

lemma zero_purchase_value_int64:
  "getitem (heap (snd (calculate_performance free_share_provider 0 free_share_int_world)) ! 0)
     ''PurchaseValue'' = Inr [I64 0] \<and>
   getitem (heap (snd (calculate_performance free_share_provider 0 free_share_int_world)) ! 0)
     ''ProfitLoss'' = Inr [Num (Fin 50)] \<and>
   getitem (heap (snd (calculate_performance free_share_provider 0 free_share_int_world)) ! 0)
     ''PercentageReturn'' = Inr [Num PInf]"
  by code_simp

lemma int64_product_wraps:
  "series_op Mul [I64 4000000000] [I64 4000000000] = Inr [I64 (- 2446744073709551616)]"
  by code_simp

section \<open>The chart on degenerate tables\<close>

lemma all_Num_map:
  "(\<forall>c \<in> set cs. \<exists>v. c = Num v) \<Longrightarrow> \<exists>us. cs = map Num us"
proof (induction cs)
  case Nil
  show ?case by simp
next
  case (Cons c cs)
  then obtain v us where "c = Num v" "cs = map Num us"
    by auto
  then have "c # cs = map Num (v # us)"
    by simp
  then show ?case
    by (rule exI)
qed

lemma group_total_Num:
  "\<exists>t. group_total ks (map Num vs) k = Inr (k, t)"
proof -
  have "\<forall>c \<in> set (map snd (filter (\<lambda>kv. fst kv = k) (zip ks (map Num vs)))). \<exists>v. c = Num v"
    by (auto dest!: set_zip_rightD)
  then obtain us where "map snd (filter (\<lambda>kv. fst kv = k) (zip ks (map Num vs))) = map Num us"
    using all_Num_map by blast
  then show ?thesis
    by (simp add: group_total_def series_sum_Num)
qed

lemma collect_all_Inr:
  "(\<forall>x \<in> set xs. \<exists>y. f x = Inr y) \<Longrightarrow>
     \<exists>ys. collect (map f xs) = Inr ys \<and> length ys = length xs"
proof (induction xs)
  case Nil
  show ?case by simp
next
  case (Cons x xs)
  then obtain y ys where "f x = Inr y" "collect (map f xs) = Inr ys" "length ys = length xs"
    by auto
  then show ?case
    by simp
qed

lemma length_insort_by: "length (insort_by le x xs) = Suc (length xs)"
  by (induction xs) simp_all

lemma length_sort_by: "length (sort_by le xs) = length xs"
  by (induction xs) (simp_all add: sort_by_def length_insort_by)

lemma length_sort_values_desc: "length (sort_values_desc kvs) = length kvs"
proof -
  have "filter (\<lambda>kv. snd kv = NaN) kvs = filter (\<lambda>kv. \<not> snd kv \<noteq> NaN) kvs"
    by simp
  then show ?thesis
    unfolding sort_values_desc_def
    by (simp only: length_append length_sort_by sum_length_filter_compl)
qed

lemma array_max_nonempty: "vs \<noteq> [] \<Longrightarrow> \<exists>m. array_max vs = Inr m"
  by (cases vs) (simp_all add: array_max_def)

lemma unique_Nil_iff: "unique xs = [] \<longleftrightarrow> xs = []"
  using set_unique [of xs] by (metis set_empty)

text \<open>
  The chart step on a table with numeric current values: it raises, with ValueError,
  exactly when no row has a ticker, and never for the values the rows hold; when all
  totals are zero the colour arguments are NaN and the chart is drawn.
\<close>

lemma chart_bars_numeric:
  assumes K: "getitem df ''Ticker'' = Inr ks"
    and V: "getitem df ''CurrentValue'' = Inr (map Num vs)"
  shows "(filter (\<lambda>k. k \<noteq> Num NaN) ks = [] \<longrightarrow> chart_bars df = Inl ValueError) \<and>
     (filter (\<lambda>k. k \<noteq> Num NaN) ks \<noteq> [] \<longrightarrow> (\<exists>bars. chart_bars df = Inr bars))"
proof -
  let ?keys = "sort_by cell_le (unique (filter (\<lambda>k. k \<noteq> Num NaN) ks))"
  have "\<forall>k \<in> set ?keys. \<exists>y. group_total ks (map Num vs) k = Inr y"
    using group_total_Num by blast
  then obtain grouped where g: "collect (map (group_total ks (map Num vs)) ?keys) = Inr grouped"
    and l: "length grouped = length ?keys"
    using collect_all_Inr [of ?keys "group_total ks (map Num vs)"] by blast
  have gs: "groupby_sum df ''Ticker'' ''CurrentValue'' = Inr grouped"
    by (simp add: groupby_sum_def K V g)
  have len: "length (map snd (sort_values_desc grouped)) =
      length (unique (filter (\<lambda>k. k \<noteq> Num NaN) ks))"
    by (simp add: length_sort_values_desc l length_sort_by)
  show ?thesis
  proof (intro conjI impI)
    assume "filter (\<lambda>k. k \<noteq> Num NaN) ks = []"
    then have "map snd (sort_values_desc grouped) = []"
      using len by (simp add: unique_def)
    then show "chart_bars df = Inl ValueError"
      by (simp add: chart_bars_def gs array_max_def)
  next
    assume "filter (\<lambda>k. k \<noteq> Num NaN) ks \<noteq> []"
    then have "unique (filter (\<lambda>k. k \<noteq> Num NaN) ks) \<noteq> []"
      by (simp add: unique_Nil_iff)
    then have "map snd (sort_values_desc grouped) \<noteq> []"
      using len by (metis length_0_conv)
    then obtain m where "array_max (map snd (sort_values_desc grouped)) = Inr m"
      using array_max_nonempty by blast
    then show "\<exists>bars. chart_bars df = Inr bars"
      by (simp add: chart_bars_def gs)
  qed
qed

text \<open>
  C4 fails on the code: with no holdings the totals are 0 and the report is the empty
  table, but the chart step takes the maximum of an empty array, the run ends in
  ValueError and no chart is written.
\<close>

theorem empty_portfolio_chart_raises:
  "fst (main example_provider empty_run) = Inl ValueError \<and>
   files (snd (main example_provider empty_run)) REPORT_CSV_PATH = Some (Csv empty_enriched) \<and>
   files (snd (main example_provider empty_run)) CHART_PNG_PATH = None \<and>
   portfolio_totals empty_enriched = Inr (Fin 0, Fin 0, Fin 0, Fin 0) \<and>
   chart_bars empty_enriched = Inl ValueError"
  by code_simp

lemma all_zero_chart_does_not_raise:
  "chart_bars worthless_holdings = Inr [(Str ''AAPL'', Fin 0, NaN), (Str ''GOOG'', Fin 0, NaN)]"
  by code_simp

section \<open>Fatal input errors\<close>

lemma load_portfolio_missing:
  assumes "files w file_path = None"
  shows "load_portfolio file_path w =
     (Inr None,
      say (Text ''Please create it with columns: Ticker, Quantity, PurchasePrice'')
        (say (Text (''Error: Portfolio file not found at '' @ quoted file_path)) w))"
  using assms by (simp add: load_portfolio_def)

lemma load_portfolio_schema:
  assumes "files w file_path = Some (Csv df)"
    and "\<exists>col \<in> set required_columns. col \<notin> set (columns df)"
  shows "load_portfolio file_path w =
     (Inr None,
      say (Text ''Error: The CSV file must contain the columns: Ticker, Quantity, PurchasePrice'')
        ((say (Text (''Loading portfolio from '' @ quoted file_path @ ''...'')) w)
           \<lparr>heap := heap w @ [df]\<rparr>))"
proof -
  have "\<not> list_all (\<lambda>col. col \<in> set (columns df)) required_columns"
    using assms(2) by (simp add: list_all_iff)
  then show ?thesis
    using assms(1) by (simp add: load_portfolio_def Let_def say_simps)
qed

text \<open>
  C5: when the input file is absent, or is a table that lacks a required column, the
  run prints the diagnostic and the failure line and returns; the files afterwards are
  the files before, so neither the report nor the chart is created or overwritten.
\<close>

theorem main_fatal_errors_write_nothing:
  "(files w PORTFOLIO_CSV_PATH = None \<longrightarrow>
      fst (main prov w) = Inr () \<and>
      files (snd (main prov w)) = files w \<and>
      console (snd (main prov w)) = console w @
        [Text ''--- Starting Portfolio Performance Tracker ---'',
         Text (''Error: Portfolio file not found at '' @ quoted PORTFOLIO_CSV_PATH),
         Text ''Please create it with columns: Ticker, Quantity, PurchasePrice'',
         Text ''--- Script execution failed. ---'']) \<and>
   (files w PORTFOLIO_CSV_PATH = Some (Csv df) \<and>
    (\<exists>col \<in> set required_columns. col \<notin> set (columns df)) \<longrightarrow>
      fst (main prov w) = Inr () \<and>
      files (snd (main prov w)) = files w \<and>
      console (snd (main prov w)) = console w @
        [Text ''--- Starting Portfolio Performance Tracker ---'',
         Text (''Loading portfolio from '' @ quoted PORTFOLIO_CSV_PATH @ ''...''),
         Text ''Error: The CSV file must contain the columns: Ticker, Quantity, PurchasePrice'',
         Text ''--- Script execution failed. ---''])"
proof (intro conjI impI)
  let ?w0 = "say (Text ''--- Starting Portfolio Performance Tracker ---'') w"
  {
    assume a: "files w PORTFOLIO_CSV_PATH = None"
    then have "files ?w0 PORTFOLIO_CSV_PATH = None"
      by (simp add: say_simps)
    then have m: "main prov w =
       (Inr (), say (Text ''--- Script execution failed. ---'')
          (say (Text ''Please create it with columns: Ticker, Quantity, PurchasePrice'')
            (say (Text (''Error: Portfolio file not found at '' @ quoted PORTFOLIO_CSV_PATH)) ?w0)))"
      unfolding main_def by (simp only: load_portfolio_missing prod.case sum.case option.case)
    show "fst (main prov w) = Inr ()"
      by (simp add: m)
    show "files (snd (main prov w)) = files w"
      by (simp add: m say_simps)
    show "console (snd (main prov w)) = console w @
        [Text ''--- Starting Portfolio Performance Tracker ---'',
         Text (''Error: Portfolio file not found at '' @ quoted PORTFOLIO_CSV_PATH),
         Text ''Please create it with columns: Ticker, Quantity, PurchasePrice'',
         Text ''--- Script execution failed. ---'']"
      by (simp add: m say_simps)
  }
  {
    assume a: "files w PORTFOLIO_CSV_PATH = Some (Csv df) \<and>
      (\<exists>col \<in> set required_columns. col \<notin> set (columns df))"
    then have f: "files ?w0 PORTFOLIO_CSV_PATH = Some (Csv df)"
      by (simp add: say_simps)
    have m: "main prov w =
       (Inr (), say (Text ''--- Script execution failed. ---'')
          (say (Text ''Error: The CSV file must contain the columns: Ticker, Quantity, PurchasePrice'')
            ((say (Text (''Loading portfolio from '' @ quoted PORTFOLIO_CSV_PATH @ ''...'')) ?w0)
               \<lparr>heap := heap ?w0 @ [df]\<rparr>)))"
      unfolding main_def
      by (simp only: load_portfolio_schema [OF f conjunct2 [OF a]] prod.case sum.case option.case)
    show "fst (main prov w) = Inr ()"
      by (simp add: m)
    show "files (snd (main prov w)) = files w"
      by (simp add: m say_simps)
    show "console (snd (main prov w)) = console w @
        [Text ''--- Starting Portfolio Performance Tracker ---'',
         Text (''Loading portfolio from '' @ quoted PORTFOLIO_CSV_PATH @ ''...''),
         Text ''Error: The CSV file must contain the columns: Ticker, Quantity, PurchasePrice'',
         Text ''--- Script execution failed. ---'']"
      by (simp add: m say_simps)
  }
qed

text \<open>
  Two instances: no input file, with a report left by an earlier run, which stays as it
  is; and an input file without the purchase price column.
\<close>

theorem main_fatal_errors_write_nothing_witness:
  "files no_file_run PORTFOLIO_CSV_PATH = None \<and>
   fst (main example_provider no_file_run) = Inr () \<and>
   files (snd (main example_provider no_file_run)) = files no_file_run \<and>
   files (snd (main example_provider no_file_run)) REPORT_CSV_PATH = Some (Csv example_enriched) \<and>
   files (snd (main example_provider no_file_run)) CHART_PNG_PATH = None \<and>
   files bad_schema_run PORTFOLIO_CSV_PATH =
     Some (Csv [(''Ticker'', [Str ''AAPL'']), (''Quantity'', [Num (Fin 10)])]) \<and>
   ''PurchasePrice'' \<in> set required_columns \<and>
   ''PurchasePrice'' \<notin> set (columns [(''Ticker'', [Str ''AAPL'']), (''Quantity'', [Num (Fin 10)])]) \<and>
   fst (main example_provider bad_schema_run) = Inr () \<and>
   files (snd (main example_provider bad_schema_run)) = files bad_schema_run \<and>
   files (snd (main example_provider bad_schema_run)) REPORT_CSV_PATH = None \<and>
   files (snd (main example_provider bad_schema_run)) CHART_PNG_PATH = None \<and>
   last (console (snd (main example_provider bad_schema_run))) = Text ''--- Script execution failed. ---''"
proof -
  have n: "files no_file_run PORTFOLIO_CSV_PATH = None"
    "files no_file_run REPORT_CSV_PATH = Some (Csv example_enriched)"
    "files no_file_run CHART_PNG_PATH = None"
    by (simp_all add: no_file_run_def PORTFOLIO_CSV_PATH_def REPORT_CSV_PATH_def CHART_PNG_PATH_def)
  have b: "files bad_schema_run PORTFOLIO_CSV_PATH =
      Some (Csv [(''Ticker'', [Str ''AAPL'']), (''Quantity'', [Num (Fin 10)])])"
    "files bad_schema_run REPORT_CSV_PATH = None"
    "files bad_schema_run CHART_PNG_PATH = None"
    by (simp_all add: bad_schema_run_def PORTFOLIO_CSV_PATH_def REPORT_CSV_PATH_def CHART_PNG_PATH_def)
  have c: "''PurchasePrice'' \<in> set required_columns"
    "''PurchasePrice'' \<notin> set (columns [(''Ticker'', [Str ''AAPL'']), (''Quantity'', [Num (Fin 10)])])"
    by (simp_all add: required_columns_def columns_def)
  have e: "\<exists>col \<in> set required_columns.
      col \<notin> set (columns [(''Ticker'', [Str ''AAPL'']), (''Quantity'', [Num (Fin 10)])])"
    using c by blast
  show ?thesis
    using main_fatal_errors_write_nothing [of no_file_run example_provider "[]"]
      main_fatal_errors_write_nothing [of bad_schema_run example_provider
        "[(''Ticker'', [Str ''AAPL'']), (''Quantity'', [Num (Fin 10)])]"]
      n b c e
    by simp
qed

section \<open>The columns of the report\<close>

text \<open>
  C9, as stated, fails for a valid input that has a column beyond the three required
  ones: the report has that column too, between the input columns and the derived ones.
\<close>

theorem report_keeps_extra_column:
  "set required_columns \<subseteq> set (columns annotated_holdings) \<and>
   fst (main example_provider annotated_run) = Inr () \<and>
   files (snd (main example_provider annotated_run)) REPORT_CSV_PATH = Some (Csv annotated_report) \<and>
   columns annotated_report =
     [''Ticker'', ''Quantity'', ''PurchasePrice'', ''Notes'', ''CurrentPrice'', ''PurchaseValue'',
      ''CurrentValue'', ''ProfitLoss'', ''PercentageReturn''] \<and>
   columns annotated_report \<noteq>
     [''Ticker'', ''Quantity'', ''PurchasePrice'', ''CurrentPrice'', ''PurchaseValue'',
      ''CurrentValue'', ''ProfitLoss'', ''PercentageReturn'']"
  by code_simp

lemma getitem_in_columns: "getitem df c = Inr s \<Longrightarrow> c \<in> set (columns df)"
  by (auto simp: getitem_def columns_def split: option.splits dest: map_of_SomeD
      intro: rev_image_eqI)

lemma load_portfolio_ok:
  assumes "files w file_path = Some (Csv df)"
    and "\<forall>col \<in> set required_columns. col \<in> set (columns df)"
  shows "load_portfolio file_path w =
     (Inr (Some (length (heap w))),
      (say (Text (''Loading portfolio from '' @ quoted file_path @ ''...'')) w)
         \<lparr>heap := heap w @ [df]\<rparr>)"
proof -
  have "list_all (\<lambda>col. col \<in> set (columns df)) required_columns"
    using assms(2) by (simp add: list_all_iff)
  then show ?thesis
    using assms(1) by (simp add: load_portfolio_def Let_def say_simps)
qed

lemma generate_summary_and_report_ok:
  assumes "portfolio_totals (heap w ! r) = Inr t"
  shows "fst (generate_summary_and_report r path w) = Inr () \<and>
     files (snd (generate_summary_and_report r path w)) = (files w)(path \<mapsto> Csv (heap w ! r)) \<and>
     heap (snd (generate_summary_and_report r path w)) = heap w"
  using assms by (cases t) (simp add: generate_summary_and_report_def Let_def)

lemma generate_visualization_files:
  "files (snd (generate_visualization r path w)) path' =
     (if path' = path \<and> fst (generate_visualization r path w) = Inr ()
      then files (snd (generate_visualization r path w)) path else files w path')"
  by (simp add: generate_visualization_def Let_def say_simps split: sum.splits)

lemma series_sum_numeric:
  "list_all is_numeric cs \<Longrightarrow> \<exists>t. series_sum cs = Inr t"
proof -
  assume "list_all is_numeric cs"
  then have "\<not> list_ex (\<lambda>c. \<not> is_numeric c) cs"
    by (simp add: list_ex_iff list_all_iff)
  then show ?thesis
    by (simp add: series_sum_def)
qed

lemma portfolio_totals_numeric:
  assumes "getitem df ''PurchaseValue'' = Inr pv" "list_all is_numeric pv"
    and "getitem df ''CurrentValue'' = Inr cv" "list_all is_numeric cv"
    and "getitem df ''ProfitLoss'' = Inr pl" "list_all is_numeric pl"
  shows "\<exists>t. portfolio_totals df = Inr t"
proof -
  obtain a where a: "series_sum pv = Inr a"
    using series_sum_numeric [OF assms(2)] by (elim exE)
  obtain b where b: "series_sum cv = Inr b"
    using series_sum_numeric [OF assms(4)] by (elim exE)
  obtain c where c: "series_sum pl = Inr c"
    using series_sum_numeric [OF assms(6)] by (elim exE)
  show ?thesis
    unfolding portfolio_totals_def
    by (simp only: assms(1,3,5) a b c sum.case) (rule exI, rule refl)
qed

lemma main_report:
  assumes F: "files w PORTFOLIO_CSV_PATH = Some (Csv df)"
    and T: "getitem df ''Ticker'' = Inr ts"
    and Q: "getitem df ''Quantity'' = Inr q"
    and P: "getitem df ''PurchasePrice'' = Inr p"
    and nq: "list_all is_numeric q"
    and np: "list_all is_numeric p"
  shows "\<exists>pv cv pl r0 r1.
     series_op Mul q p = Inr pv \<and>
     series_op Mul q (series_map (fst (get_live_prices prov (unique ts))) ts) = Inr cv \<and>
     series_op Sub cv pv = Inr pl \<and>
     series_op Div pl pv = Inr r0 \<and>
     series_scale r0 100 = Inr r1 \<and>
     files (snd (main prov w)) REPORT_CSV_PATH =
       Some (Csv (with_metrics df (series_map (fst (get_live_prices prov (unique ts))) ts)
                    pv cv pl (fillna0 r1)))"
proof -
  let ?d = "fst (get_live_prices prov (unique ts))"
  obtain pv where pv: "series_op Mul q p = Inr pv" "list_all is_numeric pv"
    using series_op_numeric [OF nq np] by blast
  obtain cv where cv: "series_op Mul q (series_map ?d ts) = Inr cv" "list_all is_numeric cv"
    using series_op_numeric [OF nq series_map_numeric] by blast
  obtain pl where pl: "series_op Sub cv pv = Inr pl" "list_all is_numeric pl"
    using series_op_numeric [OF cv(2) pv(2)] by blast
  obtain r0 where r0: "series_op Div pl pv = Inr r0" "list_all is_numeric r0"
    using series_op_numeric [OF pl(2) pv(2)] by blast
  obtain r1 where r1: "series_scale r0 100 = Inr r1"
    using series_scale_numeric [OF r0(2)] by blast
  define e where "e = with_metrics df (series_map ?d ts) pv cv pl (fillna0 r1)"
  define w0 where "w0 = say (Text ''--- Starting Portfolio Performance Tracker ---'') w"
  define w1 where "w1 =
     (say (Text (''Loading portfolio from '' @ quoted PORTFOLIO_CSV_PATH @ ''...'')) w0)
        \<lparr>heap := heap w0 @ [df]\<rparr>"
  define n where "n = length (heap w0)"
  have req: "\<forall>col \<in> set required_columns. col \<in> set (columns df)"
    using T Q P by (auto simp: required_columns_def dest: getitem_in_columns)
  have F0: "files w0 PORTFOLIO_CSV_PATH = Some (Csv df)"
    using F by (simp add: w0_def say_simps)
  have L: "load_portfolio PORTFOLIO_CSV_PATH w0 = (Inr (Some n), w1)"
    unfolding n_def w1_def using F0 req by (rule load_portfolio_ok)
  have h1: "heap w1 ! n = df" and ln: "n < length (heap w1)"
    by (simp_all add: w1_def n_def say_simps)
  have dm: "derive_metrics ?d (heap w1 ! n) = (None, e)"
    unfolding h1 e_def using T Q P pv(1) cv(1) pl(1) r0(1) r1 by (rule derive_metrics_steps)
  have T1: "getitem (heap w1 ! n) ''Ticker'' = Inr ts"
    using T by (simp only: h1)
  obtain w2 where C: "calculate_performance prov n w1 = (Inr n, w2)"
    and h2: "heap w2 ! n = e"
    using calculate_performance_steps [OF T1 dm] ln by simp
  obtain t where tot: "portfolio_totals (heap w2 ! n) = Inr t"
    unfolding h2 e_def
    using portfolio_totals_numeric [OF getitem_with_metrics(2) pv(2) getitem_with_metrics(3) cv(2)
        getitem_with_metrics(4) pl(2)]
    by blast
  obtain u w3 where G: "generate_summary_and_report n REPORT_CSV_PATH w2 = (u, w3)"
    by (cases "generate_summary_and_report n REPORT_CSV_PATH w2")
  have gu: "u = Inr ()" and gf: "files w3 REPORT_CSV_PATH = Some (Csv e)"
    using generate_summary_and_report_ok [OF tot, of REPORT_CSV_PATH] G h2 by simp_all
  obtain v w4 where V: "generate_visualization n CHART_PNG_PATH w3 = (v, w4)"
    by (cases "generate_visualization n CHART_PNG_PATH w3")
  have ne: "REPORT_CSV_PATH \<noteq> CHART_PNG_PATH"
    by (simp add: REPORT_CSV_PATH_def CHART_PNG_PATH_def)
  have vf: "files w4 REPORT_CSV_PATH = Some (Csv e)"
    using generate_visualization_files [of n CHART_PNG_PATH w3 REPORT_CSV_PATH] V ne gf
    by simp
  have m: "main prov w =
     (case v of
        Inl x \<Rightarrow> (Inl x, w4)
      | Inr x \<Rightarrow>
          (Inr (),
           say (Text (''Chart: '' @ quoted CHART_PNG_PATH))
             (say (Text (''Report: '' @ quoted REPORT_CSV_PATH))
               (say (Text (CHR 0x0A # ''--- Portfolio analysis complete. ---'')) w4))))"
    unfolding main_def w0_def [symmetric]
    by (simp only: L C G gu V prod.case sum.case option.case)
  have "files (snd (main prov w)) REPORT_CSV_PATH = Some (Csv e)"
    by (cases v) (simp_all add: m vf say_simps)
  then show ?thesis
    unfolding e_def using pv(1) cv(1) pl(1) r0(1) r1
    by (intro exI [of _ pv] exI [of _ cv] exI [of _ pl] exI [of _ r0] exI [of _ r1] conjI)
qed

text \<open>
  C9, amended: when the input file is a table with a ticker column and numeric quantity
  and purchase price columns, the run leaves at the report path, whatever was there
  before, the input table with the five derived columns set to the values computed from
  its rows. The columns of this report are the columns of the input in the order of the
  input, followed by those of CurrentPrice, PurchaseValue, CurrentValue, ProfitLoss and
  PercentageReturn that the input did not have; for an input with exactly the columns
  Ticker, Quantity, PurchasePrice these are the eight columns of the claim, in its order.
\<close>

theorem report_columns:
  assumes "files w PORTFOLIO_CSV_PATH = Some (Csv df)"
    and "getitem df ''Ticker'' = Inr ts"
    and "getitem df ''Quantity'' = Inr q"
    and "getitem df ''PurchasePrice'' = Inr p"
    and "list_all is_numeric q"
    and "list_all is_numeric p"
  shows "\<exists>pv cv pl r0 r1.
     series_op Mul q p = Inr pv \<and>
     series_op Mul q (series_map (fst (get_live_prices prov (unique ts))) ts) = Inr cv \<and>
     series_op Sub cv pv = Inr pl \<and>
     series_op Div pl pv = Inr r0 \<and>
     series_scale r0 100 = Inr r1 \<and>
     files (snd (main prov w)) REPORT_CSV_PATH =
       Some (Csv (with_metrics df (series_map (fst (get_live_prices prov (unique ts))) ts)
                    pv cv pl (fillna0 r1))) \<and>
     columns (with_metrics df (series_map (fst (get_live_prices prov (unique ts))) ts)
                pv cv pl (fillna0 r1)) =
       columns df @ filter (\<lambda>c. c \<notin> set (columns df)) derived_columns \<and>
     (columns df = [''Ticker'', ''Quantity'', ''PurchasePrice''] \<longrightarrow>
        columns (with_metrics df (series_map (fst (get_live_prices prov (unique ts))) ts)
                   pv cv pl (fillna0 r1)) =
          [''Ticker'', ''Quantity'', ''PurchasePrice'', ''CurrentPrice'', ''PurchaseValue'',
           ''CurrentValue'', ''ProfitLoss'', ''PercentageReturn''])"
proof -
  let ?cp = "series_map (fst (get_live_prices prov (unique ts))) ts"
  from main_report [OF assms, of prov]
  obtain pv cv pl r0 r1 where e: "series_op Mul q p = Inr pv" "series_op Mul q ?cp = Inr cv"
      "series_op Sub cv pv = Inr pl" "series_op Div pl pv = Inr r0" "series_scale r0 100 = Inr r1"
    and f: "files (snd (main prov w)) REPORT_CSV_PATH =
        Some (Csv (with_metrics df ?cp pv cv pl (fillna0 r1)))"
    by (elim exE conjE)
  have c: "columns (with_metrics df ?cp pv cv pl (fillna0 r1)) =
      columns df @ filter (\<lambda>c. c \<notin> set (columns df)) derived_columns"
    by (rule columns_with_metrics)
  have c8: "columns df = [''Ticker'', ''Quantity'', ''PurchasePrice''] \<longrightarrow>
      columns (with_metrics df ?cp pv cv pl (fillna0 r1)) =
        [''Ticker'', ''Quantity'', ''PurchasePrice'', ''CurrentPrice'', ''PurchaseValue'',
         ''CurrentValue'', ''ProfitLoss'', ''PercentageReturn'']"
    by (simp add: c derived_columns_def)
  show ?thesis
    using e f c c8
    by (intro exI [of _ pv] exI [of _ cv] exI [of _ pl] exI [of _ r0] exI [of _ r1] conjI)
qed

text \<open>
  An instance: the example table as input, and at the report path the empty report of
  an earlier run; the run replaces it by the enriched example table.
\<close>

theorem report_columns_witness:
  "files rerun PORTFOLIO_CSV_PATH = Some (Csv example_holdings) \<and>
   files rerun REPORT_CSV_PATH = Some (Csv empty_enriched) \<and>
   getitem example_holdings ''Ticker'' = Inr [Str ''AAPL'', Str ''AAPL'', Str ''GOOG''] \<and>
   getitem example_holdings ''Quantity'' = Inr (map Num [Fin 10, Fin 5, Fin 2]) \<and>
   getitem example_holdings ''PurchasePrice'' = Inr (map Num [Fin 150, Fin 160, Fin 2800]) \<and>
   list_all is_numeric (map Num [Fin 10, Fin 5, Fin 2]) \<and>
   list_all is_numeric (map Num [Fin 150, Fin 160, Fin 2800]) \<and>
   columns example_holdings = [''Ticker'', ''Quantity'', ''PurchasePrice''] \<and>
   files (snd (main example_provider rerun)) REPORT_CSV_PATH = Some (Csv example_enriched) \<and>
   example_enriched \<noteq> empty_enriched \<and>
   columns example_enriched =
     [''Ticker'', ''Quantity'', ''PurchasePrice'', ''CurrentPrice'', ''PurchaseValue'',
      ''CurrentValue'', ''ProfitLoss'', ''PercentageReturn'']"
proof -
  let ?ts = "[Str ''AAPL'', Str ''AAPL'', Str ''GOOG'']"
  let ?cp = "series_map (fst (get_live_prices example_provider (unique ?ts))) ?ts"
  have f: "files rerun PORTFOLIO_CSV_PATH = Some (Csv example_holdings)"
    "files rerun REPORT_CSV_PATH = Some (Csv empty_enriched)"
    by (simp_all add: rerun_def PORTFOLIO_CSV_PATH_def REPORT_CSV_PATH_def)
  have c: "columns example_holdings = [''Ticker'', ''Quantity'', ''PurchasePrice'']"
    by (simp add: example_holdings_def columns_def)
  have n: "list_all is_numeric (map Num [Fin 10, Fin 5, Fin 2])"
    "list_all is_numeric (map Num [Fin 150, Fin 160, Fin 2800])"
    by simp_all
  have cp: "?cp = [Num (Fin 170), Num (Fin 170), Num (Fin 2700)]"
    by (simp add: series_map_def example_quotes_resolved example_quotes_def)
  from report_columns [OF f(1) example_holdings_columns n, of example_provider]
  obtain pv cv pl r0 r1
    where pv: "series_op Mul (map Num [Fin 10, Fin 5, Fin 2]) (map Num [Fin 150, Fin 160, Fin 2800])
        = Inr pv"
      and cv: "series_op Mul (map Num [Fin 10, Fin 5, Fin 2]) ?cp = Inr cv"
      and pl: "series_op Sub cv pv = Inr pl"
      and r0: "series_op Div pl pv = Inr r0"
      and r1: "series_scale r0 100 = Inr r1"
      and rep: "files (snd (main example_provider rerun)) REPORT_CSV_PATH =
        Some (Csv (with_metrics example_holdings ?cp pv cv pl (fillna0 r1)))"
    by (elim exE conjE)
  have pv': "pv = [Num (Fin 1500), Num (Fin 800), Num (Fin 5600)]"
    using pv by simp
  have cv': "cv = [Num (Fin 1700), Num (Fin 850), Num (Fin 5400)]"
    using cv by (simp add: cp)
  have pl': "pl = [Num (Fin 200), Num (Fin 50), Num (Fin (- 200))]"
    using pl by (simp add: cv' pv' fsub_def)
  have r0': "r0 = [Num (Fin (2 / 15)), Num (Fin (1 / 16)), Num (Fin (- (1 / 28)))]"
    using r0 by (simp add: pl' pv')
  have r1': "fillna0 r1 = [Num (Fin (40 / 3)), Num (Fin (25 / 4)), Num (Fin (- (25 / 7)))]"
    using r1 by (auto simp: r0' series_scale_def fillna0_def)
  have eq: "with_metrics example_holdings ?cp pv cv pl (fillna0 r1) = example_enriched"
    by (simp add: cp pv' cv' pl' r1' with_metrics_def setitem_def example_holdings_def
        example_enriched_def)
  have ne: "example_enriched \<noteq> empty_enriched"
    by (simp add: example_enriched_def empty_enriched_def)
  have c8: "columns example_enriched =
     [''Ticker'', ''Quantity'', ''PurchasePrice'', ''CurrentPrice'', ''PurchaseValue'',
      ''CurrentValue'', ''ProfitLoss'', ''PercentageReturn'']"
    by (simp add: example_enriched_def columns_def)
  show ?thesis
    using f example_holdings_columns n c rep ne c8 by (simp only: eq simp_thms)
qed

end
